theory Spec2Isabelle
  imports Complex_Main
begin

section \<open>JavaScript values\<close>

text \<open>
  A property of a JavaScript object is missing (\<open>undefined\<close>), \<open>null\<close>, or holds a value.
  The TypeScript declarations give every property read by the retriever a type, so a
  property of type \<open>T | undefined\<close> is an \<open>'a optional\<close>; \<open>Null\<close> is kept as a separate
  value because the catalog answers in JSON, where \<open>null\<close> can be written.
\<close>

datatype 'a optional = Undefined | Null | Defined 'a

text \<open>Free-form JSON, for the parts of an entity that the catalog model leaves untyped.
  A number is the rational value it has after parsing.\<close>

datatype json =
    JNull
  | JBool bool
  | JNumber rat
  | JString string
  | JArray "json list"
  | JObject "(string \<times> json) list"

type_synonym json_object = "(string \<times> json) list"
type_synonym string_map = "(string \<times> string) list"

text \<open>\<open>Boolean(x)\<close> for \<open>x : string | null | undefined\<close>: only a non-empty string is truthy.\<close>

fun Boolean :: "string optional \<Rightarrow> bool" where
  "Boolean (Defined s) = (s \<noteq> [])"
| "Boolean Null = False"
| "Boolean Undefined = False"

text \<open>\<open>x || y\<close> on strings: \<open>x\<close> when it is truthy, \<open>y\<close> otherwise.\<close>

definition or_string :: "string optional \<Rightarrow> string optional \<Rightarrow> string optional" where
  "or_string x y = (if Boolean x then x else y)"

text \<open>\<open>x || d\<close> where \<open>x\<close> is an object or an array: every object is truthy, also the empty one.\<close>

fun or_object :: "'a optional \<Rightarrow> 'a \<Rightarrow> 'a" where
  "or_object (Defined v) d = v"
| "or_object Null d = d"
| "or_object Undefined d = d"

fun truthy_object :: "'a optional \<Rightarrow> bool" where
  "truthy_object (Defined v) = True"
| "truthy_object Null = False"
| "truthy_object Undefined = False"

text \<open>Truthiness of a JSON value: \<open>null\<close>, \<open>false\<close>, \<open>0\<close> and the empty string are falsy, every
  other value is truthy, every array and object included.\<close>

fun truthy_json :: "json \<Rightarrow> bool" where
  "truthy_json JNull = False"
| "truthy_json (JBool b) = b"
| "truthy_json (JNumber n) = (n \<noteq> 0)"
| "truthy_json (JString s) = (s \<noteq> [])"
| "truthy_json (JArray xs) = True"
| "truthy_json (JObject kvs) = True"

text \<open>A property of a free-form JSON object is read with \<open>map_of\<close>: \<open>None\<close> is \<open>undefined\<close>.
  \<open>Boolean(x)\<close> and \<open>x || null\<close> for such a property \<open>x\<close>.\<close>

fun Boolean_json :: "json option \<Rightarrow> bool" where
  "Boolean_json None = False"
| "Boolean_json (Some j) = truthy_json j"

definition or_null :: "json option \<Rightarrow> json" where
  "or_null x = (case x of None \<Rightarrow> JNull | Some j \<Rightarrow> if truthy_json j then j else JNull)"

text \<open>\<open>Object.keys(o)\<close> of an object held as an association list in insertion order.\<close>

definition Object_keys :: "(string \<times> 'a) list \<Rightarrow> string list" where
  "Object_keys obj = map fst obj"

section \<open>Entities\<close>

text \<open>
  The type \<open>Entity\<close> is imported from the catalog model. Its shape: a \<open>kind\<close>, a \<open>metadata\<close>
  object whose known properties are typed (name, namespace, title and description are
  strings, annotations and labels are string maps, tags a list of strings), a \<open>spec\<close> that
  is a free-form JSON object (so \<open>spec.owner\<close>, \<open>spec.lifecycle\<close>, \<open>spec.type\<close> and
  \<open>spec.system\<close> are JSON values of any kind), a list of relations and a status object.
  The retriever guards every one of them with \<open>|| {}\<close> or \<open>|| []\<close>, metadata included, so
  each may be missing here.
\<close>

record relation =
  relation_type :: string
  relation_targetRef :: string

record metadata_obj =
  metadata_name :: "string optional"
  metadata_namespace :: "string optional"
  metadata_title :: "string optional"
  metadata_description :: "string optional"
  metadata_annotations :: "string_map optional"
  metadata_labels :: "string_map optional"
  metadata_tags :: "string list optional"
  metadata_links :: "json_object list optional"
  metadata_rest :: json_object

record entity =
  entity_kind :: string
  entity_metadata :: "metadata_obj optional"
  entity_spec :: "json_object optional"
  entity_relations :: "relation list optional"
  entity_status :: "json_object optional"

text \<open>The object literal \<open>{}\<close> at the type of metadata: no property is set. At the type of
  spec and status it is the empty list.\<close>

definition empty_metadata :: metadata_obj where
  "empty_metadata =
     \<lparr> metadata_name = Undefined, metadata_namespace = Undefined,
       metadata_title = Undefined, metadata_description = Undefined,
       metadata_annotations = Undefined, metadata_labels = Undefined,
       metadata_tags = Undefined, metadata_links = Undefined, metadata_rest = [] \<rparr>"

section \<open>Fact records\<close>

datatype error = TypeError string | Rejected string

record entity_ref =
  ref_namespace :: "string optional"
  ref_kind :: string
  ref_name :: "string optional"

text \<open>The values stored under the keys of \<open>facts\<close>, one constructor for each TypeScript type
  that occurs there.\<close>

datatype fact_value =
    FEntity entity
  | FMetadata metadata_obj
  | FJson json
  | FObject json_object
  | FStringMap string_map
  | FTags "string list"
  | FLinks "json_object list"
  | FRelations "relation list"
  | FString "string optional"
  | FBoolean bool
  | FNumber nat

type_synonym facts = "(string \<times> fact_value) list"

record fact_record =
  record_entity :: entity_ref
  record_facts :: facts
  record_timestamp :: nat

text \<open>Reading \<open>entity.metadata.p\<close>: a property read on \<open>undefined\<close> or \<open>null\<close> throws a
  TypeError. The postfix \<open>!\<close> of \<open>entity.metadata.namespace!\<close> is erased by the compiler
  and reads the property as it is.\<close>

fun read_metadata :: "entity \<Rightarrow> (metadata_obj \<Rightarrow> 'a) \<Rightarrow> string \<Rightarrow> error + 'a" where
  "read_metadata e p nm =
     (case entity_metadata e of
        Defined m \<Rightarrow> Inr (p m)
      | Null \<Rightarrow> Inl (TypeError (''Cannot read properties of null (reading '' @ nm @ '')''))
      | Undefined \<Rightarrow>
          Inl (TypeError (''Cannot read properties of undefined (reading '' @ nm @ '')'')))"

section \<open>The retriever context and its effects\<close>

text \<open>An entity filter of the context: one record from field to value or values, or a list
  of such records.\<close>

datatype filter_value = FilterValue string | FilterValues "string list"

datatype entity_filter =
    FilterRecord "(string \<times> filter_value) list"
  | FilterRecords "(string \<times> filter_value) list list"

type_synonym credentials = string
type_synonym token = string

text \<open>What the handler does to the outside, in the order it does it.\<close>

datatype event =
    GetOwnServiceCredentials
  | GetPluginRequestToken credentials string
  | GetEntities "entity_filter optional" token
  | LoggerInfo string "entity_filter optional option"

text \<open>The context of one invocation. The auth service and the catalog are external: their
  answers (a value, or a rejection) are part of the context. \<open>ctx_logger\<close> says whether a
  logger was injected. \<open>ctx_clock i\<close> is what the \<open>i\<close>-th call of \<open>DateTime.now()\<close> returns.\<close>

record retriever_context =
  ctx_entityFilter :: "entity_filter optional"
  ctx_logger :: bool
  auth_getOwnServiceCredentials :: "error + credentials"
  auth_getPluginRequestToken :: "credentials \<Rightarrow> string \<Rightarrow> error + token"
  catalog_getEntities :: "entity_filter optional \<Rightarrow> token \<Rightarrow> error + entity list"
  ctx_clock :: "nat \<Rightarrow> nat"

type_synonym outcome = "event list \<times> (error + fact_record list)"

type_synonym schema = "(string \<times> string \<times> string) list"

record fact_retriever =
  retriever_id :: string
  retriever_version :: string
  retriever_title :: string
  retriever_description :: string
  retriever_schema :: schema
  retriever_handler :: "retriever_context \<Rightarrow> outcome"

text \<open>\<open>items.map(callback)\<close>: the callback runs on each item in order; the first throw ends
  the map and no array is returned. \<open>i\<close> counts the clock reads made so far.\<close>

fun items_map :: "(nat \<Rightarrow> entity \<Rightarrow> error + fact_record) \<Rightarrow> (nat \<Rightarrow> nat) \<Rightarrow> nat \<Rightarrow> entity list
    \<Rightarrow> error + fact_record list" where
  "items_map f clock i [] = Inr []"
| "items_map f clock i (e # es) =
     (case f (clock i) e of
        Inl err \<Rightarrow> Inl err
      | Inr r \<Rightarrow>
          (case items_map f clock (Suc i) es of
             Inl err \<Rightarrow> Inl err
           | Inr rs \<Rightarrow> Inr (r # rs)))"

text \<open>\<open>a || b\<close> and \<open>a ? x : y\<close> on the filters, which are objects when they are set.\<close>

definition or_optional :: "'a optional \<Rightarrow> 'a optional \<Rightarrow> 'a optional" where
  "or_optional a b = (if truthy_object a then a else b)"

text \<open>A number inside a template literal: its decimal digits.\<close>

fun show_nat :: "nat \<Rightarrow> string" where
  "show_nat n =
     (if n < 10 then [char_of (48 + n)]
      else show_nat (n div 10) @ [char_of (48 + n mod 10)])"

section \<open>dynamicEntityFactRetriever.ts\<close>

definition dynamicEntityFactRetriever_schema :: schema where
  "dynamicEntityFactRetriever_schema =
     [ (''entity'', ''object'',
          ''Complete entity object with all properties accessible via JSONPath''),
       (''kind'', ''string'',
          ''Entity kind (e.g., Component, API, Resource)''),
       (''name'', ''string'',
          ''Entity name from metadata.name''),
       (''namespace'', ''string'',
          ''Entity namespace from metadata.namespace''),
       (''metadata'', ''object'',
          ''Entity metadata object containing title, description, annotations, labels, etc.''),
       (''annotations'', ''object'',
          ''Entity annotations object (metadata.annotations)''),
       (''labels'', ''object'',
          ''Entity labels object (metadata.labels)''),
       (''title'', ''string'',
          ''Entity title from metadata.title''),
       (''description'', ''string'',
          ''Entity description from metadata.description''),
       (''tags'', ''array'',
          ''Entity tags array from metadata.tags''),
       (''spec'', ''object'',
          ''Entity spec object containing type, lifecycle, owner, etc.''),
       (''owner'', ''string'',
          ''Entity owner from spec.owner''),
       (''lifecycle'', ''string'',
          ''Entity lifecycle from spec.lifecycle''),
       (''type'', ''string'',
          ''Entity type from spec.type''),
       (''system'', ''string'',
          ''Entity system from spec.system''),
       (''relations'', ''array'',
          ''Entity relations array for dependency and ownership analysis''),
       (''status'', ''object'',
          ''Entity status object''),
       (''hasTitle'', ''boolean'',
          ''Boolean indicating if entity has a title''),
       (''hasDescription'', ''boolean'',
          ''Boolean indicating if entity has a description''),
       (''hasTags'', ''boolean'',
          ''Boolean indicating if entity has tags''),
       (''hasOwner'', ''boolean'',
          ''Boolean indicating if entity has an owner''),
       (''hasAnnotations'', ''boolean'',
          ''Boolean indicating if entity has annotations''),
       (''hasLabels'', ''boolean'',
          ''Boolean indicating if entity has labels''),
       (''relationCount'', ''number'',
          ''Total number of relations''),
       (''dependencyCount'', ''number'',
          ''Number of dependsOn relations''),
       (''dependentCount'', ''number'',
          ''Number of dependencyOf relations''),
       (''links'', ''array'',
          ''Entity links array from metadata.links''),
       (''linkCount'', ''number'',
          ''Number of links defined'') ]"

text \<open>The \<open>facts\<close> object literal of the handler's map callback, keys in source order.\<close>

definition dynamicEntityFactRetriever_facts :: "entity \<Rightarrow> facts" where
  "dynamicEntityFactRetriever_facts e =
     (let metadata = or_object (entity_metadata e) empty_metadata;
          spec = or_object (entity_spec e) [];
          relations = or_object (entity_relations e) [];
          annotations = or_object (metadata_annotations metadata) [];
          labels = or_object (metadata_labels metadata) [];
          tags = or_object (metadata_tags metadata) [];
          links = or_object (metadata_links metadata) [];
          dependencyCount = length (filter (\<lambda>r. relation_type r = ''dependsOn'') relations);
          dependentCount = length (filter (\<lambda>r. relation_type r = ''dependencyOf'') relations)
      in [ (''entity'', FEntity e),
           (''kind'', FString (Defined (entity_kind e))),
           (''name'', FString (metadata_name metadata)),
           (''namespace'', FString (or_string (metadata_namespace metadata) (Defined ''default''))),
           (''metadata'', FMetadata metadata),
           (''annotations'', FStringMap annotations),
           (''labels'', FStringMap labels),
           (''title'', FString (or_string (metadata_title metadata) Null)),
           (''description'', FString (or_string (metadata_description metadata) Null)),
           (''tags'', FTags tags),
           (''links'', FLinks links),
           (''spec'', FObject spec),
           (''owner'', FJson (or_null (map_of spec ''owner''))),
           (''lifecycle'', FJson (or_null (map_of spec ''lifecycle''))),
           (''type'', FJson (or_null (map_of spec ''type''))),
           (''system'', FJson (or_null (map_of spec ''system''))),
           (''relations'', FRelations relations),
           (''hasTitle'', FBoolean (Boolean (metadata_title metadata))),
           (''hasDescription'', FBoolean (Boolean (metadata_description metadata))),
           (''hasTags'', FBoolean (length tags > 0)),
           (''hasOwner'', FBoolean (Boolean_json (map_of spec ''owner''))),
           (''hasAnnotations'', FBoolean (length (Object_keys annotations) > 0)),
           (''hasLabels'', FBoolean (length (Object_keys labels) > 0)),
           (''relationCount'', FNumber (length relations)),
           (''dependencyCount'', FNumber dependencyCount),
           (''dependentCount'', FNumber dependentCount),
           (''linkCount'', FNumber (length links)) ])"

text \<open>The map callback: the entity reference is built first (and throws when
  \<open>entity.metadata\<close> cannot be read), then the facts, then \<open>DateTime.now()\<close>.\<close>

definition dynamicEntityFactRetriever_mapEntity :: "nat \<Rightarrow> entity \<Rightarrow> error + fact_record" where
  "dynamicEntityFactRetriever_mapEntity now e =
     (case read_metadata e metadata_namespace ''namespace'' of
        Inl err \<Rightarrow> Inl err
      | Inr ns \<Rightarrow>
          (case read_metadata e metadata_name ''name'' of
             Inl err \<Rightarrow> Inl err
           | Inr nm \<Rightarrow>
               Inr \<lparr> record_entity = \<lparr> ref_namespace = ns, ref_kind = entity_kind e, ref_name = nm \<rparr>,
                     record_facts = dynamicEntityFactRetriever_facts e,
                     record_timestamp = now \<rparr>))"

definition dynamicEntityFactRetriever_handler :: "retriever_context \<Rightarrow> outcome" where
  "dynamicEntityFactRetriever_handler ctx =
     (case auth_getOwnServiceCredentials ctx of
        Inl err \<Rightarrow> ([GetOwnServiceCredentials], Inl err)
      | Inr creds \<Rightarrow>
          (case auth_getPluginRequestToken ctx creds ''catalog'' of
             Inl err \<Rightarrow>
               ([GetOwnServiceCredentials, GetPluginRequestToken creds ''catalog''], Inl err)
           | Inr token \<Rightarrow>
               (let trace = [GetOwnServiceCredentials, GetPluginRequestToken creds ''catalog'',
                             GetEntities (ctx_entityFilter ctx) token]
                in case catalog_getEntities ctx (ctx_entityFilter ctx) token of
                     Inl err \<Rightarrow> (trace, Inl err)
                   | Inr items \<Rightarrow>
                       (trace,
                        items_map dynamicEntityFactRetriever_mapEntity (ctx_clock ctx) 0 items))))"

definition dynamicEntityFactRetriever :: fact_retriever where
  "dynamicEntityFactRetriever =
     \<lparr> retriever_id = ''dynamicEntityFactRetriever'',
       retriever_version = ''0.1.0'',
       retriever_title = ''Dynamic Entity Properties'',
       retriever_description =
         ''Exposes complete entity structure for dynamic property checking via JSONPath expressions'',
       retriever_schema = dynamicEntityFactRetriever_schema,
       retriever_handler = dynamicEntityFactRetriever_handler \<rparr>"

section \<open>The retriever factory\<close>

definition createDynamicEntityFactRetriever_schema :: schema where
  "createDynamicEntityFactRetriever_schema =
     [ (''entity'', ''object'',
          ''Complete entity object with all properties accessible via JSONPath''),
       (''kind'', ''string'',
          ''Entity kind (e.g., Component, API, Resource)''),
       (''name'', ''string'',
          ''Entity name from metadata.name''),
       (''namespace'', ''string'',
          ''Entity namespace from metadata.namespace''),
       (''metadata'', ''object'',
          ''Entity metadata object containing title, description, annotations, labels, etc.''),
       (''annotations'', ''object'',
          ''Entity annotations object (metadata.annotations)''),
       (''labels'', ''object'',
          ''Entity labels object (metadata.labels)''),
       (''title'', ''string'',
          ''Entity title from metadata.title''),
       (''description'', ''string'',
          ''Entity description from metadata.description''),
       (''tags'', ''object'',
          ''Entity tags array from metadata.tags''),
       (''spec'', ''object'',
          ''Entity spec object containing type, lifecycle, owner, etc.''),
       (''owner'', ''string'',
          ''Entity owner from spec.owner''),
       (''lifecycle'', ''string'',
          ''Entity lifecycle from spec.lifecycle''),
       (''type'', ''string'',
          ''Entity type from spec.type''),
       (''system'', ''string'',
          ''Entity system from spec.system''),
       (''relations'', ''object'',
          ''Entity relations array for dependency and ownership analysis''),
       (''status'', ''object'',
          ''Entity status object''),
       (''hasTitle'', ''boolean'',
          ''Boolean indicating if entity has a title''),
       (''hasDescription'', ''boolean'',
          ''Boolean indicating if entity has a description''),
       (''hasTags'', ''boolean'',
          ''Boolean indicating if entity has tags''),
       (''hasOwner'', ''boolean'',
          ''Boolean indicating if entity has an owner''),
       (''hasAnnotations'', ''boolean'',
          ''Boolean indicating if entity has annotations''),
       (''hasLabels'', ''boolean'',
          ''Boolean indicating if entity has labels''),
       (''relationCount'', ''integer'',
          ''Total number of relations''),
       (''dependencyCount'', ''integer'',
          ''Number of dependsOn relations''),
       (''dependentCount'', ''integer'',
          ''Number of dependencyOf relations''),
       (''links'', ''object'',
          ''Entity links array from metadata.links''),
       (''linkCount'', ''integer'',
          ''Number of links defined'') ]"

text \<open>The \<open>facts\<close> object literal of the factory's map callback: as above, with \<open>status\<close>
  after \<open>relations\<close>.\<close>

definition createDynamicEntityFactRetriever_facts :: "entity \<Rightarrow> facts" where
  "createDynamicEntityFactRetriever_facts e =
     (let metadata = or_object (entity_metadata e) empty_metadata;
          spec = or_object (entity_spec e) [];
          relations = or_object (entity_relations e) [];
          status = or_object (entity_status e) [];
          annotations = or_object (metadata_annotations metadata) [];
          labels = or_object (metadata_labels metadata) [];
          tags = or_object (metadata_tags metadata) [];
          links = or_object (metadata_links metadata) [];
          dependencyCount = length (filter (\<lambda>r. relation_type r = ''dependsOn'') relations);
          dependentCount = length (filter (\<lambda>r. relation_type r = ''dependencyOf'') relations)
      in [ (''entity'', FEntity e),
           (''kind'', FString (Defined (entity_kind e))),
           (''name'', FString (metadata_name metadata)),
           (''namespace'', FString (or_string (metadata_namespace metadata) (Defined ''default''))),
           (''metadata'', FMetadata metadata),
           (''annotations'', FStringMap annotations),
           (''labels'', FStringMap labels),
           (''title'', FString (or_string (metadata_title metadata) Null)),
           (''description'', FString (or_string (metadata_description metadata) Null)),
           (''tags'', FTags tags),
           (''links'', FLinks links),
           (''spec'', FObject spec),
           (''owner'', FJson (or_null (map_of spec ''owner''))),
           (''lifecycle'', FJson (or_null (map_of spec ''lifecycle''))),
           (''type'', FJson (or_null (map_of spec ''type''))),
           (''system'', FJson (or_null (map_of spec ''system''))),
           (''relations'', FRelations relations),
           (''status'', FObject status),
           (''hasTitle'', FBoolean (Boolean (metadata_title metadata))),
           (''hasDescription'', FBoolean (Boolean (metadata_description metadata))),
           (''hasTags'', FBoolean (length tags > 0)),
           (''hasOwner'', FBoolean (Boolean_json (map_of spec ''owner''))),
           (''hasAnnotations'', FBoolean (length (Object_keys annotations) > 0)),
           (''hasLabels'', FBoolean (length (Object_keys labels) > 0)),
           (''relationCount'', FNumber (length relations)),
           (''dependencyCount'', FNumber dependencyCount),
           (''dependentCount'', FNumber dependentCount),
           (''linkCount'', FNumber (length links)) ])"

definition createDynamicEntityFactRetriever_mapEntity :: "nat \<Rightarrow> entity \<Rightarrow> error + fact_record" where
  "createDynamicEntityFactRetriever_mapEntity now e =
     (case read_metadata e metadata_namespace ''namespace'' of
        Inl err \<Rightarrow> Inl err
      | Inr ns \<Rightarrow>
          (case read_metadata e metadata_name ''name'' of
             Inl err \<Rightarrow> Inl err
           | Inr nm \<Rightarrow>
               Inr \<lparr> record_entity = \<lparr> ref_namespace = ns, ref_kind = entity_kind e, ref_name = nm \<rparr>,
                     record_facts = createDynamicEntityFactRetriever_facts e,
                     record_timestamp = now \<rparr>))"

text \<open>The handler closes over \<open>entityFilterConfig\<close> and \<open>factRetrieverId\<close>. \<open>logger?.info\<close>
  logs only when a logger was injected.\<close>

definition logger_info :: "retriever_context \<Rightarrow> string \<Rightarrow> entity_filter optional option \<Rightarrow> event list" where
  "logger_info ctx msg arg = (if ctx_logger ctx then [LoggerInfo msg arg] else [])"

definition createDynamicEntityFactRetriever_handler ::
    "entity_filter optional \<Rightarrow> string \<Rightarrow> retriever_context \<Rightarrow> outcome" where
  "createDynamicEntityFactRetriever_handler entityFilterConfig factRetrieverId ctx =
     (case auth_getOwnServiceCredentials ctx of
        Inl err \<Rightarrow> ([GetOwnServiceCredentials], Inl err)
      | Inr creds \<Rightarrow>
          (case auth_getPluginRequestToken ctx creds ''catalog'' of
             Inl err \<Rightarrow>
               ([GetOwnServiceCredentials, GetPluginRequestToken creds ''catalog''], Inl err)
           | Inr token \<Rightarrow>
               (let finalEntityFilter = or_optional entityFilterConfig (ctx_entityFilter ctx);
                    trace =
                      [GetOwnServiceCredentials, GetPluginRequestToken creds ''catalog'']
                      @ (if truthy_object entityFilterConfig
                         then logger_info ctx (factRetrieverId @ '' using configured entity filter:'')
                                (Some finalEntityFilter)
                         else logger_info ctx (factRetrieverId @ '' using context entity filter:'')
                                (Some finalEntityFilter))
                      @ [GetEntities finalEntityFilter token]
                in case catalog_getEntities ctx finalEntityFilter token of
                     Inl err \<Rightarrow> (trace, Inl err)
                   | Inr items \<Rightarrow>
                       (trace
                        @ logger_info ctx
                            (factRetrieverId @ '' processed '' @ show_nat (length items) @ '' entities'')
                            None,
                        items_map createDynamicEntityFactRetriever_mapEntity (ctx_clock ctx) 0 items))))"

text \<open>\<open>factRetrieverId\<close> defaults to \<open>'dynamicEntityFactRetriever'\<close> when the argument is
  left out.\<close>

definition createDynamicEntityFactRetriever ::
    "entity_filter optional \<Rightarrow> string option \<Rightarrow> fact_retriever" where
  "createDynamicEntityFactRetriever entityFilterConfig factRetrieverIdArg =
     (let factRetrieverId =
            (case factRetrieverIdArg of None \<Rightarrow> ''dynamicEntityFactRetriever'' | Some i \<Rightarrow> i)
      in \<lparr> retriever_id = factRetrieverId,
           retriever_version = ''0.1.0'',
           retriever_title =
             ''Dynamic Entity Properties''
             @ (if truthy_object entityFilterConfig then '' (Filtered)'' else []),
           retriever_description =
             ''Dynamic entity fact retriever''
             @ (if truthy_object entityFilterConfig then '' with entity filtering'' else []),
           retriever_schema = createDynamicEntityFactRetriever_schema,
           retriever_handler =
             createDynamicEntityFactRetriever_handler entityFilterConfig factRetrieverId \<rparr>)"

text \<open>The module's exports: the default retriever and the preconfigured ones.\<close>

definition dynamicEntityFactRetriever_default :: fact_retriever where
  "dynamicEntityFactRetriever_default = createDynamicEntityFactRetriever Undefined None"

definition dynamicEntityFactRetrieverComponents :: fact_retriever where
  "dynamicEntityFactRetrieverComponents =
     createDynamicEntityFactRetriever
       (Defined (FilterRecord [(''kind'', FilterValues [''Component''])]))
       (Some ''dynamicEntityFactRetrieverComponents'')"

definition dynamicEntityFactRetrieverProduction :: fact_retriever where
  "dynamicEntityFactRetrieverProduction =
     createDynamicEntityFactRetriever
       (Defined (FilterRecord [(''spec.lifecycle'', FilterValue ''production'')]))
       (Some ''dynamicEntityFactRetrieverProduction'')"

definition dynamicEntityFactRetrieverAPIs :: fact_retriever where
  "dynamicEntityFactRetrieverAPIs =
     createDynamicEntityFactRetriever
       (Defined (FilterRecord [(''kind'', FilterValues [''API''])]))
       (Some ''dynamicEntityFactRetrieverAPIs'')"

definition dynamicEntityFactRetrieverServices :: fact_retriever where
  "dynamicEntityFactRetrieverServices =
     createDynamicEntityFactRetriever
       (Defined (FilterRecord [(''kind'', FilterValues [''Component'']),
                               (''spec.type'', FilterValue ''service'')]))
       (Some ''dynamicEntityFactRetrieverServices'')"

definition createFilteredDynamicFactRetriever :: "entity_filter optional \<Rightarrow> string \<Rightarrow> fact_retriever" where
  "createFilteredDynamicFactRetriever filter_arg ident =
     createDynamicEntityFactRetriever filter_arg (Some ident)"

section \<open>Observations and sample inputs\<close>

text \<open>The catalog queries of a trace: the filter and the token of each \<open>getEntities\<close> call.\<close>

fun queries :: "event list \<Rightarrow> (entity_filter optional \<times> token) list" where
  "queries [] = []"
| "queries (GetEntities flt tok # evs) = (flt, tok) # queries evs"
| "queries (ev # evs) = queries evs"

text \<open>The facts of an outcome of the map callback, without entity reference and timestamp.\<close>

definition facts_of :: "error + fact_record \<Rightarrow> error + facts" where
  "facts_of res = (case res of Inl err \<Rightarrow> Inl err | Inr r \<Rightarrow> Inr (record_facts r))"

definition sample_metadata :: metadata_obj where
  "sample_metadata =
     \<lparr> metadata_name = Defined ''svc'', metadata_namespace = Defined ''default'',
       metadata_title = Undefined, metadata_description = Undefined,
       metadata_annotations = Undefined, metadata_labels = Undefined,
       metadata_tags = Defined [''java''], metadata_links = Undefined, metadata_rest = [] \<rparr>"

definition sample_entity :: entity where
  "sample_entity =
     \<lparr> entity_kind = ''Component'',
       entity_metadata = Defined sample_metadata,
       entity_spec =
         Defined [(''owner'', JString ''team-a''), (''lifecycle'', JString ''production'')],
       entity_relations =
         Defined [ \<lparr> relation_type = ''dependsOn'', relation_targetRef = ''x'' \<rparr>,
                   \<lparr> relation_type = ''dependsOn'', relation_targetRef = ''y'' \<rparr>,
                   \<lparr> relation_type = ''dependencyOf'', relation_targetRef = ''z'' \<rparr>,
                   \<lparr> relation_type = ''ownedBy'', relation_targetRef = ''team-a'' \<rparr> ],
       entity_status = Undefined \<rparr>"

text \<open>An entity whose metadata has no namespace, one whose namespace is the empty string,
  one whose title, description and owner are empty strings, and one without metadata.\<close>

definition entity_without_namespace :: entity where
  "entity_without_namespace =
     sample_entity \<lparr> entity_metadata := Defined (sample_metadata \<lparr> metadata_namespace := Undefined \<rparr>) \<rparr>"

definition entity_empty_namespace :: entity where
  "entity_empty_namespace =
     sample_entity \<lparr> entity_metadata := Defined (sample_metadata \<lparr> metadata_namespace := Defined [] \<rparr>) \<rparr>"

definition entity_empty_strings :: entity where
  "entity_empty_strings =
     \<lparr> entity_kind = ''API'',
       entity_metadata =
         Defined (sample_metadata \<lparr> metadata_title := Defined [], metadata_description := Defined [],
                                   metadata_tags := Defined [],
                                   metadata_annotations := Defined [(''team'', ''a'')],
                                   metadata_labels := Defined [] \<rparr>),
       entity_spec =
         Defined [(''owner'', JString []), (''lifecycle'', JNull)],
       entity_relations = Undefined,
       entity_status = Defined [(''items'', JArray [])] \<rparr>"

text \<open>An entity of a custom kind whose \<open>spec.owner\<close> is the number 42.\<close>

definition entity_numeric_owner :: entity where
  "entity_numeric_owner = sample_entity \<lparr> entity_spec := Defined [(''owner'', JNumber 42)] \<rparr>"

definition entity_without_metadata :: entity where
  "entity_without_metadata = sample_entity \<lparr> entity_metadata := Undefined \<rparr>"

text \<open>A context whose auth service answers, whose catalog returns the given items whatever
  the filter, and whose caller asks for APIs.\<close>

definition sample_context :: "entity list \<Rightarrow> retriever_context" where
  "sample_context items =
     \<lparr> ctx_entityFilter = Defined (FilterRecord [(''kind'', FilterValues [''API''])]),
       ctx_logger = True,
       auth_getOwnServiceCredentials = Inr ''plugin:tech-insights'',
       auth_getPluginRequestToken = (\<lambda>creds target. Inr (creds @ ''->'' @ target)),
       catalog_getEntities = (\<lambda>flt tok. Inr items),
       ctx_clock = (\<lambda>i. 1000 + i) \<rparr>"

section \<open>The map callback\<close>

lemma factory_mapEntity_Defined:
  "entity_metadata e = Defined m \<Longrightarrow>
   createDynamicEntityFactRetriever_mapEntity now e =
     Inr \<lparr> record_entity = \<lparr> ref_namespace = metadata_namespace m, ref_kind = entity_kind e,
                              ref_name = metadata_name m \<rparr>,
           record_facts = createDynamicEntityFactRetriever_facts e,
           record_timestamp = now \<rparr>"
  by (simp add: createDynamicEntityFactRetriever_mapEntity_def)

lemma static_mapEntity_Defined:
  "entity_metadata e = Defined m \<Longrightarrow>
   dynamicEntityFactRetriever_mapEntity now e =
     Inr \<lparr> record_entity = \<lparr> ref_namespace = metadata_namespace m, ref_kind = entity_kind e,
                              ref_name = metadata_name m \<rparr>,
           record_facts = dynamicEntityFactRetriever_facts e,
           record_timestamp = now \<rparr>"
  by (simp add: dynamicEntityFactRetriever_mapEntity_def)

lemma factory_mapEntity_throws:
  "\<not> truthy_object (entity_metadata e) \<Longrightarrow> isl (createDynamicEntityFactRetriever_mapEntity now e)"
  by (cases "entity_metadata e") (simp_all add: createDynamicEntityFactRetriever_mapEntity_def)

lemma static_mapEntity_throws:
  "\<not> truthy_object (entity_metadata e) \<Longrightarrow> isl (dynamicEntityFactRetriever_mapEntity now e)"
  by (cases "entity_metadata e") (simp_all add: dynamicEntityFactRetriever_mapEntity_def)

lemma factory_mapEntity_Inr:
  assumes "createDynamicEntityFactRetriever_mapEntity now e = Inr r"
  obtains m where "entity_metadata e = Defined m"
    and "record_entity r = \<lparr> ref_namespace = metadata_namespace m, ref_kind = entity_kind e,
                              ref_name = metadata_name m \<rparr>"
    and "record_facts r = createDynamicEntityFactRetriever_facts e"
    and "record_timestamp r = now"
proof (cases "entity_metadata e")
  case (Defined m)
  with assms factory_mapEntity_Defined [OF Defined, of now] that [of m] show thesis by auto
next
  case Null
  with assms factory_mapEntity_throws [of e now] show thesis by simp
next
  case Undefined
  with assms factory_mapEntity_throws [of e now] show thesis by simp
qed

lemma static_mapEntity_Inr:
  assumes "dynamicEntityFactRetriever_mapEntity now e = Inr r"
  obtains m where "entity_metadata e = Defined m"
    and "record_entity r = \<lparr> ref_namespace = metadata_namespace m, ref_kind = entity_kind e,
                              ref_name = metadata_name m \<rparr>"
    and "record_facts r = dynamicEntityFactRetriever_facts e"
    and "record_timestamp r = now"
proof (cases "entity_metadata e")
  case (Defined m)
  with assms static_mapEntity_Defined [OF Defined, of now] that [of m] show thesis by auto
next
  case Null
  with assms static_mapEntity_throws [of e now] show thesis by simp
next
  case Undefined
  with assms static_mapEntity_throws [of e now] show thesis by simp
qed

section \<open>Looking facts up\<close>

lemma factory_facts_lookup:
  "map_of (createDynamicEntityFactRetriever_facts e) ''namespace'' =
     Some (FString (or_string (metadata_namespace (or_object (entity_metadata e) empty_metadata))
                      (Defined ''default'')))"
  "map_of (createDynamicEntityFactRetriever_facts e) ''title'' =
     Some (FString (or_string (metadata_title (or_object (entity_metadata e) empty_metadata)) Null))"
  "map_of (createDynamicEntityFactRetriever_facts e) ''description'' =
     Some (FString (or_string (metadata_description (or_object (entity_metadata e) empty_metadata)) Null))"
  "map_of (createDynamicEntityFactRetriever_facts e) ''owner'' =
     Some (FJson (or_null (map_of (or_object (entity_spec e) []) ''owner'')))"
  "map_of (createDynamicEntityFactRetriever_facts e) ''hasTitle'' =
     Some (FBoolean (Boolean (metadata_title (or_object (entity_metadata e) empty_metadata))))"
  "map_of (createDynamicEntityFactRetriever_facts e) ''hasDescription'' =
     Some (FBoolean (Boolean (metadata_description (or_object (entity_metadata e) empty_metadata))))"
  "map_of (createDynamicEntityFactRetriever_facts e) ''hasOwner'' =
     Some (FBoolean (Boolean_json (map_of (or_object (entity_spec e) []) ''owner'')))"
  "map_of (createDynamicEntityFactRetriever_facts e) ''hasTags'' =
     Some (FBoolean (or_object (metadata_tags (or_object (entity_metadata e) empty_metadata)) [] \<noteq> []))"
  "map_of (createDynamicEntityFactRetriever_facts e) ''hasAnnotations'' =
     Some (FBoolean (or_object (metadata_annotations (or_object (entity_metadata e) empty_metadata)) [] \<noteq> []))"
  "map_of (createDynamicEntityFactRetriever_facts e) ''hasLabels'' =
     Some (FBoolean (or_object (metadata_labels (or_object (entity_metadata e) empty_metadata)) [] \<noteq> []))"
  "map_of (createDynamicEntityFactRetriever_facts e) ''relationCount'' =
     Some (FNumber (length (or_object (entity_relations e) [])))"
  "map_of (createDynamicEntityFactRetriever_facts e) ''dependencyCount'' =
     Some (FNumber (length (filter (\<lambda>r. relation_type r = ''dependsOn'')
                              (or_object (entity_relations e) []))))"
  "map_of (createDynamicEntityFactRetriever_facts e) ''dependentCount'' =
     Some (FNumber (length (filter (\<lambda>r. relation_type r = ''dependencyOf'')
                              (or_object (entity_relations e) []))))"
  "map_of (createDynamicEntityFactRetriever_facts e) ''status'' =
     Some (FObject (or_object (entity_status e) []))"
  by (simp_all add: createDynamicEntityFactRetriever_facts_def Let_def Object_keys_def)

lemma static_facts_lookup:
  "map_of (dynamicEntityFactRetriever_facts e) ''namespace'' =
     Some (FString (or_string (metadata_namespace (or_object (entity_metadata e) empty_metadata))
                      (Defined ''default'')))"
  "map_of (dynamicEntityFactRetriever_facts e) ''title'' =
     Some (FString (or_string (metadata_title (or_object (entity_metadata e) empty_metadata)) Null))"
  "map_of (dynamicEntityFactRetriever_facts e) ''description'' =
     Some (FString (or_string (metadata_description (or_object (entity_metadata e) empty_metadata)) Null))"
  "map_of (dynamicEntityFactRetriever_facts e) ''owner'' =
     Some (FJson (or_null (map_of (or_object (entity_spec e) []) ''owner'')))"
  "map_of (dynamicEntityFactRetriever_facts e) ''hasTitle'' =
     Some (FBoolean (Boolean (metadata_title (or_object (entity_metadata e) empty_metadata))))"
  "map_of (dynamicEntityFactRetriever_facts e) ''hasDescription'' =
     Some (FBoolean (Boolean (metadata_description (or_object (entity_metadata e) empty_metadata))))"
  "map_of (dynamicEntityFactRetriever_facts e) ''hasOwner'' =
     Some (FBoolean (Boolean_json (map_of (or_object (entity_spec e) []) ''owner'')))"
  "map_of (dynamicEntityFactRetriever_facts e) ''hasTags'' =
     Some (FBoolean (or_object (metadata_tags (or_object (entity_metadata e) empty_metadata)) [] \<noteq> []))"
  "map_of (dynamicEntityFactRetriever_facts e) ''hasAnnotations'' =
     Some (FBoolean (or_object (metadata_annotations (or_object (entity_metadata e) empty_metadata)) [] \<noteq> []))"
  "map_of (dynamicEntityFactRetriever_facts e) ''hasLabels'' =
     Some (FBoolean (or_object (metadata_labels (or_object (entity_metadata e) empty_metadata)) [] \<noteq> []))"
  "map_of (dynamicEntityFactRetriever_facts e) ''relationCount'' =
     Some (FNumber (length (or_object (entity_relations e) [])))"
  "map_of (dynamicEntityFactRetriever_facts e) ''dependencyCount'' =
     Some (FNumber (length (filter (\<lambda>r. relation_type r = ''dependsOn'')
                              (or_object (entity_relations e) []))))"
  "map_of (dynamicEntityFactRetriever_facts e) ''dependentCount'' =
     Some (FNumber (length (filter (\<lambda>r. relation_type r = ''dependencyOf'')
                              (or_object (entity_relations e) []))))"
  "map_of (dynamicEntityFactRetriever_facts e) ''status'' = None"
  by (simp_all add: dynamicEntityFactRetriever_facts_def Let_def Object_keys_def)

section \<open>The batch map\<close>

lemma items_map_Inr:
  "items_map f clock i es = Inr rs \<Longrightarrow>
   length rs = length es \<and> (\<forall>j < length es. f (clock (i + j)) (es ! j) = Inr (rs ! j))"
proof (induction es arbitrary: i rs)
  case Nil
  then show ?case by simp
next
  case (Cons e es)
  from Cons.prems obtain r rs' where r: "f (clock i) e = Inr r"
    and rs': "items_map f clock (Suc i) es = Inr rs'" and rs: "rs = r # rs'"
    by (auto split: sum.splits)
  from Cons.IH [OF rs'] have len: "length rs' = length es"
    and nth: "\<And>j. j < length es \<Longrightarrow> f (clock (Suc i + j)) (es ! j) = Inr (rs' ! j)"
    by simp_all
  show ?case
  proof (intro conjI allI impI)
    show "length rs = length (e # es)" using rs len by simp
  next
    fix j assume "j < length (e # es)"
    then show "f (clock (i + j)) ((e # es) ! j) = Inr (rs ! j)"
      using r rs nth by (cases j) simp_all
  qed
qed

lemma items_map_total:
  "(\<And>e t. e \<in> set es \<Longrightarrow> \<not> isl (f t e)) \<Longrightarrow> \<not> isl (items_map f clock i es)"
proof (induction es arbitrary: i)
  case Nil
  then show ?case by simp
next
  case (Cons e es)
  have "\<not> isl (f (clock i) e)" using Cons.prems by simp
  moreover have "\<not> isl (items_map f clock (Suc i) es)" using Cons by simp
  ultimately show ?case by (auto split: sum.splits)
qed

lemma items_map_abort:
  "e \<in> set es \<Longrightarrow> (\<And>t. isl (f t e)) \<Longrightarrow> isl (items_map f clock i es)"
proof (induction es arbitrary: i)
  case Nil
  then show ?case by simp
next
  case (Cons x es)
  show ?case
  proof (cases "x = e")
    case True
    with Cons.prems(2) [of "clock i"] show ?thesis by (auto split: sum.splits)
  next
    case False
    with Cons have "isl (items_map f clock (Suc i) es)" by simp
    then show ?thesis by (auto split: sum.splits)
  qed
qed

section \<open>The handlers after a successful fetch\<close>

lemma factory_handler_fetched:
  assumes "auth_getOwnServiceCredentials ctx = Inr creds"
    and "auth_getPluginRequestToken ctx creds ''catalog'' = Inr tok"
    and "catalog_getEntities ctx (or_optional cfg (ctx_entityFilter ctx)) tok = Inr items"
  shows "snd (createDynamicEntityFactRetriever_handler cfg ident ctx) =
           items_map createDynamicEntityFactRetriever_mapEntity (ctx_clock ctx) 0 items"
  using assms by (simp add: createDynamicEntityFactRetriever_handler_def Let_def)

lemma static_handler_fetched:
  assumes "auth_getOwnServiceCredentials ctx = Inr creds"
    and "auth_getPluginRequestToken ctx creds ''catalog'' = Inr tok"
    and "catalog_getEntities ctx (ctx_entityFilter ctx) tok = Inr items"
  shows "snd (dynamicEntityFactRetriever_handler ctx) =
           items_map dynamicEntityFactRetriever_mapEntity (ctx_clock ctx) 0 items"
  using assms by (simp add: dynamicEntityFactRetriever_handler_def Let_def)

lemma queries_append: "queries (xs @ ys) = queries xs @ queries ys"
  by (induction xs rule: queries.induct) simp_all

lemma queries_logger_info: "queries (logger_info ctx msg arg) = []"
  by (simp add: logger_info_def)

lemma factory_handler_queries:
  "queries (fst (createDynamicEntityFactRetriever_handler cfg ident ctx)) =
     (case auth_getOwnServiceCredentials ctx of
        Inl err \<Rightarrow> []
      | Inr creds \<Rightarrow>
          (case auth_getPluginRequestToken ctx creds ''catalog'' of
             Inl err \<Rightarrow> []
           | Inr tok \<Rightarrow> [(or_optional cfg (ctx_entityFilter ctx), tok)]))"
  by (simp add: createDynamicEntityFactRetriever_handler_def Let_def queries_append
      queries_logger_info split: sum.splits)

section \<open>JavaScript operators and key sets\<close>

lemma factory_mapEntity_isl:
  "isl (createDynamicEntityFactRetriever_mapEntity now e) = (\<not> truthy_object (entity_metadata e))"
  by (cases "entity_metadata e") (simp_all add: createDynamicEntityFactRetriever_mapEntity_def)

lemma static_mapEntity_isl:
  "isl (dynamicEntityFactRetriever_mapEntity now e) = (\<not> truthy_object (entity_metadata e))"
  by (cases "entity_metadata e") (simp_all add: dynamicEntityFactRetriever_mapEntity_def)

lemma length_three_way:
  "length (filter (\<lambda>x. g x = a) xs) + length (filter (\<lambda>x. g x = b) xs)
     + length (filter (\<lambda>x. g x \<noteq> a \<and> g x \<noteq> b) xs) = length xs" if "a \<noteq> b"
  using that by (induction xs) auto

lemma or_string_Null_iff: "(or_string x Null = Null) = (\<not> Boolean x)"
  by (cases x) (simp_all add: or_string_def)

lemma Boolean_iff: "Boolean x = (\<exists>s. x = Defined s \<and> s \<noteq> [])"
  by (cases x) simp_all

lemma or_null_JNull_iff: "(or_null x = JNull) = (\<not> Boolean_json x)"
proof (cases x)
  case None
  then show ?thesis by (simp add: or_null_def)
next
  case (Some j)
  then show ?thesis by (cases j) (simp_all add: or_null_def)
qed

lemma Boolean_json_iff:
  "Boolean_json x =
     (\<exists>j. x = Some j \<and> j \<noteq> JNull \<and> j \<noteq> JBool False \<and> j \<noteq> JNumber 0 \<and> j \<noteq> JString [])"
proof (cases x)
  case None
  then show ?thesis by simp
next
  case (Some j)
  then show ?thesis by (cases j) auto
qed

lemma or_object_nonempty_iff: "(or_object x [] \<noteq> []) = (\<exists>v. x = Defined v \<and> v \<noteq> [])"
  by (cases x) simp_all

lemma factory_facts_keys:
  "set (map fst (createDynamicEntityFactRetriever_facts e))
     = set (map fst createDynamicEntityFactRetriever_schema)"
  "distinct (map fst (createDynamicEntityFactRetriever_facts e))"
  by (simp_all add: createDynamicEntityFactRetriever_facts_def
      createDynamicEntityFactRetriever_schema_def Let_def insert_commute)

lemma static_facts_keys:
  "set (map fst (dynamicEntityFactRetriever_facts e))
     = set (map fst dynamicEntityFactRetriever_schema) - {''status''}"
  by (auto simp add: dynamicEntityFactRetriever_facts_def dynamicEntityFactRetriever_schema_def Let_def)

section \<open>What a returned record holds\<close>

lemma mapEntity_Inr_facts:
  assumes "createDynamicEntityFactRetriever_mapEntity now e = Inr r
           \<or> dynamicEntityFactRetriever_mapEntity now e = Inr r"
  obtains m where "entity_metadata e = Defined m"
    and "record_facts r = createDynamicEntityFactRetriever_facts e
         \<or> record_facts r = dynamicEntityFactRetriever_facts e"
    and "ref_namespace (record_entity r) = metadata_namespace m"
  using assms by (auto elim: factory_mapEntity_Inr static_mapEntity_Inr)

lemma mapEntity_Inr_lookup:
  assumes "createDynamicEntityFactRetriever_mapEntity now e = Inr r
           \<or> dynamicEntityFactRetriever_mapEntity now e = Inr r"
  obtains m where "entity_metadata e = Defined m"
    and "ref_namespace (record_entity r) = metadata_namespace m"
    and "map_of (record_facts r) ''namespace'' =
           Some (FString (or_string (metadata_namespace m) (Defined ''default'')))"
    and "map_of (record_facts r) ''title'' = Some (FString (or_string (metadata_title m) Null))"
    and "map_of (record_facts r) ''description'' =
           Some (FString (or_string (metadata_description m) Null))"
    and "map_of (record_facts r) ''owner'' =
           Some (FJson (or_null (map_of (or_object (entity_spec e) []) ''owner'')))"
    and "map_of (record_facts r) ''hasTitle'' = Some (FBoolean (Boolean (metadata_title m)))"
    and "map_of (record_facts r) ''hasDescription'' =
           Some (FBoolean (Boolean (metadata_description m)))"
    and "map_of (record_facts r) ''hasOwner'' =
           Some (FBoolean (Boolean_json (map_of (or_object (entity_spec e) []) ''owner'')))"
    and "map_of (record_facts r) ''hasTags'' =
           Some (FBoolean (or_object (metadata_tags m) [] \<noteq> []))"
    and "map_of (record_facts r) ''hasAnnotations'' =
           Some (FBoolean (or_object (metadata_annotations m) [] \<noteq> []))"
    and "map_of (record_facts r) ''hasLabels'' =
           Some (FBoolean (or_object (metadata_labels m) [] \<noteq> []))"
    and "map_of (record_facts r) ''relationCount'' =
           Some (FNumber (length (or_object (entity_relations e) [])))"
    and "map_of (record_facts r) ''dependencyCount'' =
           Some (FNumber (length (filter (\<lambda>x. relation_type x = ''dependsOn'')
                                    (or_object (entity_relations e) []))))"
    and "map_of (record_facts r) ''dependentCount'' =
           Some (FNumber (length (filter (\<lambda>x. relation_type x = ''dependencyOf'')
                                    (or_object (entity_relations e) []))))"
proof -
  from assms obtain m where m: "entity_metadata e = Defined m"
    and r: "record_facts r = createDynamicEntityFactRetriever_facts e
            \<or> record_facts r = dynamicEntityFactRetriever_facts e"
    and ns: "ref_namespace (record_entity r) = metadata_namespace m"
    by (rule mapEntity_Inr_facts)
  from r show thesis
  proof
    assume "record_facts r = createDynamicEntityFactRetriever_facts e"
    with m ns show thesis
      by (intro that [of m]) (simp_all add: factory_facts_lookup)
  next
    assume "record_facts r = dynamicEntityFactRetriever_facts e"
    with m ns show thesis
      by (intro that [of m]) (simp_all add: static_facts_lookup)
  qed
qed

lemma items_map_mapped:
  assumes "\<And>e t. e \<in> set es \<Longrightarrow> \<not> isl (f t e)"
  shows "\<exists>rs. items_map f clock i es = Inr rs"
  using items_map_total [of es f clock i] assms
  by (cases "items_map f clock i es") auto

section \<open>Claims about the fact transform\<close>

text \<open>
  Claim C1, as stated, says that the transform fails on an entity whose
  \<open>metadata.namespace\<close> is absent. It does not: the non-null assertion \<open>!\<close> has no effect
  at run time. On the sample entity without a namespace both callbacks return a record
  whose reference has the namespace \<open>undefined\<close>, and a batch that holds it is mapped to
  the end.
\<close>

theorem C1_missing_namespace_counterexample:
  "(case entity_metadata entity_without_namespace of
      Defined m \<Rightarrow> metadata_namespace m = Undefined | Null \<Rightarrow> False | Undefined \<Rightarrow> False)
   \<and> createDynamicEntityFactRetriever_mapEntity 1000 entity_without_namespace =
       Inr \<lparr> record_entity = \<lparr> ref_namespace = Undefined, ref_kind = ''Component'',
                                ref_name = Defined ''svc'' \<rparr>,
             record_facts = createDynamicEntityFactRetriever_facts entity_without_namespace,
             record_timestamp = 1000 \<rparr>
   \<and> dynamicEntityFactRetriever_mapEntity 1000 entity_without_namespace =
       Inr \<lparr> record_entity = \<lparr> ref_namespace = Undefined, ref_kind = ''Component'',
                                ref_name = Defined ''svc'' \<rparr>,
             record_facts = dynamicEntityFactRetriever_facts entity_without_namespace,
             record_timestamp = 1000 \<rparr>
   \<and> map (\<lambda>r. ref_namespace (record_entity r))
        (projr (snd (retriever_handler dynamicEntityFactRetriever_default
                       (sample_context [entity_without_namespace, sample_entity]))))
       = [Undefined, Defined ''default'']
   \<and> \<not> isl (snd (retriever_handler dynamicEntityFactRetriever_default
                       (sample_context [entity_without_namespace, sample_entity])))"
  by (simp add: entity_without_namespace_def sample_entity_def sample_metadata_def
      createDynamicEntityFactRetriever_mapEntity_def dynamicEntityFactRetriever_mapEntity_def
      dynamicEntityFactRetriever_default_def createDynamicEntityFactRetriever_def
      createDynamicEntityFactRetriever_handler_def sample_context_def Let_def or_optional_def)

text \<open>
  Claim C1, amended. For an entity whose \<open>metadata.namespace\<close> is absent or null the
  transform returns a record: its reference holds that absent or null namespace and its
  \<open>facts.namespace\<close> is \<open>"default"\<close>. The transform fails exactly when the entity's
  \<open>metadata\<close> object itself is absent or null. It is applied per entity inside the
  handler's batch map, so once credentials and entities were fetched, one entity on which
  it fails makes the whole run fail: no records are returned for the others.
\<close>

theorem C1_missing_namespace_amended:
  assumes "auth_getOwnServiceCredentials ctx = Inr creds"
    and "auth_getPluginRequestToken ctx creds ''catalog'' = Inr tok"
  shows
  "(entity_metadata e = Defined m \<and> (metadata_namespace m = Undefined \<or> metadata_namespace m = Null) \<longrightarrow>
      (\<exists>r. createDynamicEntityFactRetriever_mapEntity now e = Inr r
          \<and> ref_namespace (record_entity r) = metadata_namespace m
          \<and> map_of (record_facts r) ''namespace'' = Some (FString (Defined ''default'')))
    \<and> (\<exists>r. dynamicEntityFactRetriever_mapEntity now e = Inr r
          \<and> ref_namespace (record_entity r) = metadata_namespace m
          \<and> map_of (record_facts r) ''namespace'' = Some (FString (Defined ''default''))))
   \<and> isl (createDynamicEntityFactRetriever_mapEntity now e') = (\<not> truthy_object (entity_metadata e'))
   \<and> isl (dynamicEntityFactRetriever_mapEntity now e') = (\<not> truthy_object (entity_metadata e'))
   \<and> (catalog_getEntities ctx (or_optional cfg (ctx_entityFilter ctx)) tok = Inr items
        \<and> e' \<in> set items \<and> isl (createDynamicEntityFactRetriever_mapEntity now e')
      \<longrightarrow> isl (snd (createDynamicEntityFactRetriever_handler cfg ident ctx)))
   \<and> (catalog_getEntities ctx (ctx_entityFilter ctx) tok = Inr items
        \<and> e' \<in> set items \<and> isl (dynamicEntityFactRetriever_mapEntity now e')
      \<longrightarrow> isl (snd (dynamicEntityFactRetriever_handler ctx)))"
proof (intro conjI impI)
  assume h: "entity_metadata e = Defined m \<and> (metadata_namespace m = Undefined \<or> metadata_namespace m = Null)"
  then have m: "entity_metadata e = Defined m" and ns: "\<not> Boolean (metadata_namespace m)"
    by auto
  from ns show "\<exists>r. createDynamicEntityFactRetriever_mapEntity now e = Inr r
          \<and> ref_namespace (record_entity r) = metadata_namespace m
          \<and> map_of (record_facts r) ''namespace'' = Some (FString (Defined ''default''))"
    by (simp add: factory_mapEntity_Defined [OF m] factory_facts_lookup m or_string_def)
  from ns show "\<exists>r. dynamicEntityFactRetriever_mapEntity now e = Inr r
          \<and> ref_namespace (record_entity r) = metadata_namespace m
          \<and> map_of (record_facts r) ''namespace'' = Some (FString (Defined ''default''))"
    by (simp add: static_mapEntity_Defined [OF m] static_facts_lookup m or_string_def)
next
  show "isl (createDynamicEntityFactRetriever_mapEntity now e') = (\<not> truthy_object (entity_metadata e'))"
    by (rule factory_mapEntity_isl)
next
  show "isl (dynamicEntityFactRetriever_mapEntity now e') = (\<not> truthy_object (entity_metadata e'))"
    by (rule static_mapEntity_isl)
next
  assume h: "catalog_getEntities ctx (or_optional cfg (ctx_entityFilter ctx)) tok = Inr items
        \<and> e' \<in> set items \<and> isl (createDynamicEntityFactRetriever_mapEntity now e')"
  then have "\<And>t. isl (createDynamicEntityFactRetriever_mapEntity t e')"
    by (simp add: factory_mapEntity_isl)
  with h have "isl (items_map createDynamicEntityFactRetriever_mapEntity (ctx_clock ctx) 0 items)"
    by (intro items_map_abort [of e']) simp_all
  with h assms show "isl (snd (createDynamicEntityFactRetriever_handler cfg ident ctx))"
    by (simp add: factory_handler_fetched)
next
  assume h: "catalog_getEntities ctx (ctx_entityFilter ctx) tok = Inr items
        \<and> e' \<in> set items \<and> isl (dynamicEntityFactRetriever_mapEntity now e')"
  then have "\<And>t. isl (dynamicEntityFactRetriever_mapEntity t e')"
    by (simp add: static_mapEntity_isl)
  with h have "isl (items_map dynamicEntityFactRetriever_mapEntity (ctx_clock ctx) 0 items)"
    by (intro items_map_abort [of e']) simp_all
  with h assms show "isl (snd (dynamicEntityFactRetriever_handler ctx))"
    by (simp add: static_handler_fetched)
qed

text \<open>The amended C1 at a batch of three entities: the second has no metadata, the third
  no namespace.\<close>

theorem C1_missing_namespace_amended_witness:
  "auth_getOwnServiceCredentials
       (sample_context [sample_entity, entity_without_metadata, entity_without_namespace])
     = Inr ''plugin:tech-insights''
   \<and> auth_getPluginRequestToken
       (sample_context [sample_entity, entity_without_metadata, entity_without_namespace])
       ''plugin:tech-insights'' ''catalog'' = Inr ''plugin:tech-insights->catalog''
   \<and> entity_metadata entity_without_namespace
       = Defined (sample_metadata \<lparr> metadata_namespace := Undefined \<rparr>)
   \<and> metadata_namespace (sample_metadata \<lparr> metadata_namespace := Undefined \<rparr>) = Undefined
   \<and> catalog_getEntities
       (sample_context [sample_entity, entity_without_metadata, entity_without_namespace])
       (or_optional Undefined
          (ctx_entityFilter
             (sample_context [sample_entity, entity_without_metadata, entity_without_namespace])))
       ''plugin:tech-insights->catalog''
     = Inr [sample_entity, entity_without_metadata, entity_without_namespace]
   \<and> entity_without_metadata \<in> set [sample_entity, entity_without_metadata, entity_without_namespace]
   \<and> isl (createDynamicEntityFactRetriever_mapEntity 1000 entity_without_metadata)
   \<and> isl (dynamicEntityFactRetriever_mapEntity 1000 entity_without_metadata)
   \<and> (\<exists>r. createDynamicEntityFactRetriever_mapEntity 1000 entity_without_namespace = Inr r
          \<and> ref_namespace (record_entity r) = Undefined
          \<and> map_of (record_facts r) ''namespace'' = Some (FString (Defined ''default'')))
   \<and> isl (snd (createDynamicEntityFactRetriever_handler Undefined ''dynamicEntityFactRetriever''
                   (sample_context [sample_entity, entity_without_metadata, entity_without_namespace])))
   \<and> isl (snd (dynamicEntityFactRetriever_handler
                   (sample_context [sample_entity, entity_without_metadata, entity_without_namespace])))"
proof -
  let ?items = "[sample_entity, entity_without_metadata, entity_without_namespace]"
  let ?ctx = "sample_context ?items"
  let ?m = "sample_metadata \<lparr> metadata_namespace := Undefined \<rparr>"
  have a: "auth_getOwnServiceCredentials ?ctx = Inr ''plugin:tech-insights''"
    and t: "auth_getPluginRequestToken ?ctx ''plugin:tech-insights'' ''catalog''
              = Inr ''plugin:tech-insights->catalog''"
    and f1: "catalog_getEntities ?ctx (or_optional Undefined (ctx_entityFilter ?ctx))
               ''plugin:tech-insights->catalog'' = Inr ?items"
    and f2: "catalog_getEntities ?ctx (ctx_entityFilter ?ctx)
               ''plugin:tech-insights->catalog'' = Inr ?items"
    by (simp_all add: sample_context_def)
  have m: "entity_metadata entity_without_namespace = Defined ?m"
    and ns: "metadata_namespace ?m = Undefined"
    and nometa: "\<not> truthy_object (entity_metadata entity_without_metadata)"
    by (simp_all add: entity_without_namespace_def entity_without_metadata_def)
  note inst = C1_missing_namespace_amended [OF a t, where e = entity_without_namespace and m = ?m
      and now = 1000 and e' = entity_without_metadata and cfg = Undefined and items = ?items
      and ident = "''dynamicEntityFactRetriever''"]
  from inst a t f1 f2 m ns nometa show ?thesis by simp
qed

text \<open>
  Claim C2: the facts of a record have exactly the keys of the published schema, \<open>status\<close>
  among them. The factory's callback does so (\<open>factory_facts_keys\<close>). The handler of
  \<open>dynamicEntityFactRetriever.ts\<close> does not: its schema declares \<open>status\<close>, its facts
  never hold that key. Evaluated at the sample entity.
\<close>

theorem C2_static_facts_lack_status:
  "(case dynamicEntityFactRetriever_mapEntity 1000 sample_entity of
      Inl err \<Rightarrow> False
    | Inr r \<Rightarrow>
        map_of (record_facts r) ''status'' = None
        \<and> set (map fst (record_facts r))
            = set (map fst (retriever_schema dynamicEntityFactRetriever)) - {''status''})
   \<and> map_of (retriever_schema dynamicEntityFactRetriever) ''status''
       = Some (''object'', ''Entity status object'')
   \<and> (case createDynamicEntityFactRetriever_mapEntity 1000 sample_entity of
        Inl err \<Rightarrow> False
      | Inr r \<Rightarrow>
          map_of (record_facts r) ''status'' = Some (FObject [])
          \<and> set (map fst (record_facts r))
              = set (map fst (retriever_schema dynamicEntityFactRetriever_default)))"
proof -
  have m: "entity_metadata sample_entity = Defined sample_metadata"
    by (simp add: sample_entity_def)
  have st: "entity_status sample_entity = Undefined"
    by (simp add: sample_entity_def)
  have sch: "map_of dynamicEntityFactRetriever_schema ''status''
       = Some (''object'', ''Entity status object'')"
    by (simp add: dynamicEntityFactRetriever_schema_def)
  show ?thesis
    by (simp add: static_mapEntity_Defined [OF m] factory_mapEntity_Defined [OF m]
        static_facts_lookup factory_facts_lookup static_facts_keys factory_facts_keys st sch
        dynamicEntityFactRetriever_def dynamicEntityFactRetriever_default_def
        createDynamicEntityFactRetriever_def Let_def del: set_map)
qed

text \<open>
  Claim C3, as stated, says that \<open>facts.namespace\<close> is the entity's namespace whenever
  that is present. At a namespace that is present and is the empty string the fact is
  \<open>"default"\<close>, while the reference keeps the empty string.
\<close>

theorem C3_empty_namespace_counterexample:
  "(case createDynamicEntityFactRetriever_mapEntity 1000 entity_empty_namespace of
      Inl err \<Rightarrow> False
    | Inr r \<Rightarrow>
        ref_namespace (record_entity r) = Defined []
        \<and> map_of (record_facts r) ''namespace'' = Some (FString (Defined ''default'')))
   \<and> (case dynamicEntityFactRetriever_mapEntity 1000 entity_empty_namespace of
        Inl err \<Rightarrow> False
      | Inr r \<Rightarrow>
          ref_namespace (record_entity r) = Defined []
          \<and> map_of (record_facts r) ''namespace'' = Some (FString (Defined ''default'')))
   \<and> (case entity_metadata entity_empty_namespace of
        Defined m \<Rightarrow> metadata_namespace m = Defined [] | Null \<Rightarrow> False | Undefined \<Rightarrow> False)"
proof -
  have m: "entity_metadata entity_empty_namespace
             = Defined (sample_metadata \<lparr> metadata_namespace := Defined [] \<rparr>)"
    by (simp add: entity_empty_namespace_def)
  show ?thesis
    by (simp add: static_mapEntity_Defined [OF m] factory_mapEntity_Defined [OF m]
        static_facts_lookup factory_facts_lookup m or_string_def)
qed

text \<open>
  Claim C3, amended. On every entity on which the transform succeeds, the reference's
  namespace is the stored value of \<open>metadata.namespace\<close> as it is (a string, null or
  absent), with no substitution; \<open>facts.namespace\<close> is that value when it is a non-empty
  string, and \<open>"default"\<close> when it is absent, null or the empty string.
\<close>

theorem C3_namespace_amended:
  assumes "createDynamicEntityFactRetriever_mapEntity now e = Inr r
           \<or> dynamicEntityFactRetriever_mapEntity now e = Inr r"
  shows "\<exists>m. entity_metadata e = Defined m
           \<and> ref_namespace (record_entity r) = metadata_namespace m
           \<and> map_of (record_facts r) ''namespace'' =
               Some (FString (case metadata_namespace m of
                                Defined s \<Rightarrow> if s = [] then Defined ''default'' else Defined s
                              | Null \<Rightarrow> Defined ''default''
                              | Undefined \<Rightarrow> Defined ''default''))"
  using assms
proof
  assume "createDynamicEntityFactRetriever_mapEntity now e = Inr r"
  then obtain m where m: "entity_metadata e = Defined m"
    and r: "record_entity r = \<lparr> ref_namespace = metadata_namespace m, ref_kind = entity_kind e,
                              ref_name = metadata_name m \<rparr>"
           "record_facts r = createDynamicEntityFactRetriever_facts e"
    by (rule factory_mapEntity_Inr)
  show ?thesis
    by (cases "metadata_namespace m") (simp_all add: m r factory_facts_lookup or_string_def)
next
  assume "dynamicEntityFactRetriever_mapEntity now e = Inr r"
  then obtain m where m: "entity_metadata e = Defined m"
    and r: "record_entity r = \<lparr> ref_namespace = metadata_namespace m, ref_kind = entity_kind e,
                              ref_name = metadata_name m \<rparr>"
           "record_facts r = dynamicEntityFactRetriever_facts e"
    by (rule static_mapEntity_Inr)
  show ?thesis
    by (cases "metadata_namespace m") (simp_all add: m r static_facts_lookup or_string_def)
qed

text \<open>The amended C3 at the entity with the empty namespace and at the sample entity.\<close>

theorem C3_namespace_amended_witness:
  "createDynamicEntityFactRetriever_mapEntity 1000 entity_empty_namespace =
     Inr \<lparr> record_entity = \<lparr> ref_namespace = Defined [], ref_kind = ''Component'',
                              ref_name = Defined ''svc'' \<rparr>,
           record_facts = createDynamicEntityFactRetriever_facts entity_empty_namespace,
           record_timestamp = 1000 \<rparr>
   \<and> map_of (createDynamicEntityFactRetriever_facts entity_empty_namespace) ''namespace''
       = Some (FString (Defined ''default''))
   \<and> map_of (createDynamicEntityFactRetriever_facts sample_entity) ''namespace''
       = Some (FString (Defined ''default''))"
proof -
  let ?r = "\<lambda>e ns. \<lparr> record_entity = \<lparr> ref_namespace = ns, ref_kind = ''Component'',
                              ref_name = Defined ''svc'' \<rparr>,
           record_facts = createDynamicEntityFactRetriever_facts e,
           record_timestamp = 1000 \<rparr>"
  have h1: "createDynamicEntityFactRetriever_mapEntity 1000 entity_empty_namespace
              = Inr (?r entity_empty_namespace (Defined []))"
    and h2: "createDynamicEntityFactRetriever_mapEntity 1000 sample_entity
              = Inr (?r sample_entity (Defined ''default''))"
    by (simp_all add: createDynamicEntityFactRetriever_mapEntity_def entity_empty_namespace_def
        sample_entity_def sample_metadata_def)
  have m1: "entity_metadata entity_empty_namespace
             = Defined (sample_metadata \<lparr> metadata_namespace := Defined [] \<rparr>)"
    and m2: "entity_metadata sample_entity = Defined sample_metadata"
    by (simp_all add: entity_empty_namespace_def sample_entity_def)
  from C3_namespace_amended [OF disjI1 [OF h1]] C3_namespace_amended [OF disjI1 [OF h2]] h1
  show ?thesis
    by (simp add: m1 m2 sample_metadata_def)
qed

section \<open>Claims about the handler and further claims about the transform\<close>

text \<open>
  Claim C4: a retriever built by the factory with a static filter queries the catalog with
  that filter, whatever filter the context supplies; a retriever built without one (the
  argument left out or null) queries with the context's filter. Once the token has been
  obtained the handler makes exactly one catalog query, with that filter and that token,
  and maps what that query returns.
\<close>

theorem C4_configured_filter_wins:
  assumes "auth_getOwnServiceCredentials ctx = Inr creds"
    and "auth_getPluginRequestToken ctx creds ''catalog'' = Inr tok"
  shows
  "queries (fst (retriever_handler (createDynamicEntityFactRetriever (Defined flt) ident) ctx))
     = [(Defined flt, tok)]
   \<and> snd (retriever_handler (createDynamicEntityFactRetriever (Defined flt) ident) ctx)
     = (case catalog_getEntities ctx (Defined flt) tok of
          Inl err \<Rightarrow> Inl err
        | Inr items \<Rightarrow>
            items_map createDynamicEntityFactRetriever_mapEntity (ctx_clock ctx) 0 items)
   \<and> (cfg = Undefined \<or> cfg = Null \<longrightarrow>
        queries (fst (retriever_handler (createDynamicEntityFactRetriever cfg ident) ctx))
          = [(ctx_entityFilter ctx, tok)]
        \<and> snd (retriever_handler (createDynamicEntityFactRetriever cfg ident) ctx)
          = (case catalog_getEntities ctx (ctx_entityFilter ctx) tok of
               Inl err \<Rightarrow> Inl err
             | Inr items \<Rightarrow>
                 items_map createDynamicEntityFactRetriever_mapEntity (ctx_clock ctx) 0 items))"
proof -
  have handler: "retriever_handler (createDynamicEntityFactRetriever c ident) =
      createDynamicEntityFactRetriever_handler c
        (case ident of None \<Rightarrow> ''dynamicEntityFactRetriever'' | Some i \<Rightarrow> i)" for c
    by (simp add: createDynamicEntityFactRetriever_def Let_def)
  have res: "snd (createDynamicEntityFactRetriever_handler c i ctx)
      = (case catalog_getEntities ctx (or_optional c (ctx_entityFilter ctx)) tok of
           Inl err \<Rightarrow> Inl err
         | Inr items \<Rightarrow>
             items_map createDynamicEntityFactRetriever_mapEntity (ctx_clock ctx) 0 items)" for c i
    using assms
    by (simp add: createDynamicEntityFactRetriever_handler_def Let_def split: sum.splits)
  have qs: "queries (fst (createDynamicEntityFactRetriever_handler c i ctx))
      = [(or_optional c (ctx_entityFilter ctx), tok)]" for c i
    using assms by (simp add: factory_handler_queries)
  have cfg_set: "or_optional (Defined flt) (ctx_entityFilter ctx) = Defined flt"
    by (simp add: or_optional_def)
  have cfg_unset: "or_optional cfg (ctx_entityFilter ctx) = ctx_entityFilter ctx"
    if "cfg = Undefined \<or> cfg = Null"
    using that by (auto simp: or_optional_def)
  show ?thesis
    by (simp add: handler res qs cfg_set cfg_unset)
qed

text \<open>C4 at the spec's example: configured for components, asked for APIs by the context.\<close>

theorem C4_configured_filter_wins_witness:
  "auth_getOwnServiceCredentials (sample_context [sample_entity]) = Inr ''plugin:tech-insights''
   \<and> auth_getPluginRequestToken (sample_context [sample_entity]) ''plugin:tech-insights''
         ''catalog'' = Inr ''plugin:tech-insights->catalog''
   \<and> ctx_entityFilter (sample_context [sample_entity])
       = Defined (FilterRecord [(''kind'', FilterValues [''API''])])
   \<and> queries (fst (retriever_handler dynamicEntityFactRetrieverComponents
                      (sample_context [sample_entity])))
       = [(Defined (FilterRecord [(''kind'', FilterValues [''Component''])]),
           ''plugin:tech-insights->catalog'')]
   \<and> queries (fst (retriever_handler dynamicEntityFactRetriever_default
                      (sample_context [sample_entity])))
       = [(Defined (FilterRecord [(''kind'', FilterValues [''API''])]),
           ''plugin:tech-insights->catalog'')]"
proof -
  let ?ctx = "sample_context [sample_entity]"
  have a: "auth_getOwnServiceCredentials ?ctx = Inr ''plugin:tech-insights''"
    and t: "auth_getPluginRequestToken ?ctx ''plugin:tech-insights'' ''catalog''
              = Inr ''plugin:tech-insights->catalog''"
    and f: "ctx_entityFilter ?ctx = Defined (FilterRecord [(''kind'', FilterValues [''API''])])"
    by (simp_all add: sample_context_def)
  note inst = C4_configured_filter_wins [OF a t,
      where flt = "FilterRecord [(''kind'', FilterValues [''Component''])]"
        and ident = "Some ''dynamicEntityFactRetrieverComponents''"
        and cfg = Undefined]
    C4_configured_filter_wins [OF a t,
      where flt = "FilterRecord [(''kind'', FilterValues [''Component''])]"
        and ident = None and cfg = Undefined]
  from inst a t f show ?thesis
    by (simp add: dynamicEntityFactRetrieverComponents_def dynamicEntityFactRetriever_default_def)
qed

text \<open>
  Claim C5: for an entity whose relations (none when the list is absent) hold \<open>n1\<close>
  entries of type \<open>dependsOn\<close>, \<open>n2\<close> of type \<open>dependencyOf\<close> and \<open>n3\<close> of other types,
  the transform of either file produces a record, and that record has
  \<open>dependencyCount = n1\<close>, \<open>dependentCount = n2\<close> and \<open>relationCount = n1 + n2 + n3\<close>.
\<close>

theorem C5_relation_counts:
  assumes "entity_metadata e = Defined m"
    and "relations = or_object (entity_relations e) []"
    and "n1 = length (filter (\<lambda>x. relation_type x = ''dependsOn'') relations)"
    and "n2 = length (filter (\<lambda>x. relation_type x = ''dependencyOf'') relations)"
    and "n3 = length (filter (\<lambda>x. relation_type x \<noteq> ''dependsOn''
                                   \<and> relation_type x \<noteq> ''dependencyOf'') relations)"
  shows "(\<exists>r. createDynamicEntityFactRetriever_mapEntity now e = Inr r
            \<and> map_of (record_facts r) ''dependencyCount'' = Some (FNumber n1)
            \<and> map_of (record_facts r) ''dependentCount'' = Some (FNumber n2)
            \<and> map_of (record_facts r) ''relationCount'' = Some (FNumber (n1 + n2 + n3)))
       \<and> (\<exists>r. dynamicEntityFactRetriever_mapEntity now e = Inr r
            \<and> map_of (record_facts r) ''dependencyCount'' = Some (FNumber n1)
            \<and> map_of (record_facts r) ''dependentCount'' = Some (FNumber n2)
            \<and> map_of (record_facts r) ''relationCount'' = Some (FNumber (n1 + n2 + n3)))"
proof -
  have total: "n1 + n2 + n3 = length relations"
    unfolding assms(3-5) by (rule length_three_way) simp
  have factory: "\<exists>r. createDynamicEntityFactRetriever_mapEntity now e = Inr r
            \<and> map_of (record_facts r) ''dependencyCount'' = Some (FNumber n1)
            \<and> map_of (record_facts r) ''dependentCount'' = Some (FNumber n2)
            \<and> map_of (record_facts r) ''relationCount'' = Some (FNumber (n1 + n2 + n3))"
    using total assms(2-4)
    by (simp add: factory_mapEntity_Defined [OF assms(1)] factory_facts_lookup)
  have static: "\<exists>r. dynamicEntityFactRetriever_mapEntity now e = Inr r
            \<and> map_of (record_facts r) ''dependencyCount'' = Some (FNumber n1)
            \<and> map_of (record_facts r) ''dependentCount'' = Some (FNumber n2)
            \<and> map_of (record_facts r) ''relationCount'' = Some (FNumber (n1 + n2 + n3))"
    using total assms(2-4)
    by (simp add: static_mapEntity_Defined [OF assms(1)] static_facts_lookup)
  from factory static show ?thesis ..
qed

text \<open>C5 at the sample entity: two \<open>dependsOn\<close>, one \<open>dependencyOf\<close>, one \<open>ownedBy\<close>; both
  callbacks return a record with the counts 2, 1 and 4.\<close>

theorem C5_relation_counts_witness:
  "entity_metadata sample_entity = Defined sample_metadata
   \<and> length (filter (\<lambda>x. relation_type x = ''dependsOn'')
                (or_object (entity_relations sample_entity) [])) = 2
   \<and> length (filter (\<lambda>x. relation_type x = ''dependencyOf'')
                (or_object (entity_relations sample_entity) [])) = 1
   \<and> length (filter (\<lambda>x. relation_type x \<noteq> ''dependsOn'' \<and> relation_type x \<noteq> ''dependencyOf'')
                (or_object (entity_relations sample_entity) [])) = 1
   \<and> (\<exists>r. createDynamicEntityFactRetriever_mapEntity 1000 sample_entity = Inr r
          \<and> map_of (record_facts r) ''dependencyCount'' = Some (FNumber 2)
          \<and> map_of (record_facts r) ''dependentCount'' = Some (FNumber 1)
          \<and> map_of (record_facts r) ''relationCount'' = Some (FNumber 4))
   \<and> (\<exists>r. dynamicEntityFactRetriever_mapEntity 1000 sample_entity = Inr r
          \<and> map_of (record_facts r) ''dependencyCount'' = Some (FNumber 2)
          \<and> map_of (record_facts r) ''dependentCount'' = Some (FNumber 1)
          \<and> map_of (record_facts r) ''relationCount'' = Some (FNumber 4))"
proof -
  let ?rs = "or_object (entity_relations sample_entity) []"
  have m: "entity_metadata sample_entity = Defined sample_metadata"
    by (simp add: sample_entity_def)
  have n1: "length (filter (\<lambda>x. relation_type x = ''dependsOn'') ?rs) = 2"
    and n2: "length (filter (\<lambda>x. relation_type x = ''dependencyOf'') ?rs) = 1"
    and n3: "length (filter (\<lambda>x. relation_type x \<noteq> ''dependsOn''
                                  \<and> relation_type x \<noteq> ''dependencyOf'') ?rs) = 1"
    by (simp_all add: sample_entity_def)
  from C5_relation_counts [OF m refl n1 [symmetric] n2 [symmetric] n3 [symmetric], of 1000]
    m n1 n2 n3
  show ?thesis by simp
qed

text \<open>
  Claim C6, as stated, says that \<open>hasOwner\<close> is true exactly when \<open>spec.owner\<close> is a
  non-null, non-empty string. \<open>spec\<close> is free-form JSON and \<open>Boolean(spec.owner)\<close> makes no
  type test: at an entity whose \<open>spec.owner\<close> is the number 42, which is not a string,
  both callbacks give \<open>hasOwner = true\<close>.
\<close>

theorem C6_numeric_owner_counterexample:
  "map_of (or_object (entity_spec entity_numeric_owner) []) ''owner'' = Some (JNumber 42)
   \<and> (case createDynamicEntityFactRetriever_mapEntity 1000 entity_numeric_owner of
        Inl err \<Rightarrow> False
      | Inr r \<Rightarrow> map_of (record_facts r) ''hasOwner'' = Some (FBoolean True))
   \<and> (case dynamicEntityFactRetriever_mapEntity 1000 entity_numeric_owner of
        Inl err \<Rightarrow> False
      | Inr r \<Rightarrow> map_of (record_facts r) ''hasOwner'' = Some (FBoolean True))"
proof -
  have m: "entity_metadata entity_numeric_owner = Defined sample_metadata"
    and sp: "entity_spec entity_numeric_owner = Defined [(''owner'', JNumber 42)]"
    by (simp_all add: entity_numeric_owner_def sample_entity_def)
  show ?thesis
    by (simp add: static_mapEntity_Defined [OF m] factory_mapEntity_Defined [OF m]
        static_facts_lookup factory_facts_lookup sp)
qed

text \<open>
  Claim C6, amended. For every entity that has its metadata object the transform of
  either file produces a record in which \<open>hasTitle\<close> and \<open>hasDescription\<close> are true exactly
  when \<open>metadata.title\<close> and \<open>metadata.description\<close> are non-null, non-empty strings;
  \<open>hasOwner\<close> is true exactly when \<open>spec.owner\<close> is present and is none of \<open>null\<close>, \<open>false\<close>,
  \<open>0\<close> and the empty string (so for an owner that is a string: exactly when it is
  non-empty; a non-zero number, \<open>true\<close>, an array or an object give true as well);
  \<open>hasTags\<close> is true exactly when \<open>metadata.tags\<close> is a non-empty list; \<open>hasAnnotations\<close> and
  \<open>hasLabels\<close> are true exactly when the mapping has at least one key.
\<close>

theorem C6_boolean_flags_amended:
  assumes "entity_metadata e = Defined m"
  shows "(\<exists>r. createDynamicEntityFactRetriever_mapEntity now e = Inr r
    \<and> map_of (record_facts r) ''hasTitle''
        = Some (FBoolean (\<exists>s. metadata_title m = Defined s \<and> s \<noteq> []))
    \<and> map_of (record_facts r) ''hasDescription''
        = Some (FBoolean (\<exists>s. metadata_description m = Defined s \<and> s \<noteq> []))
    \<and> map_of (record_facts r) ''hasOwner''
        = Some (FBoolean (\<exists>sp j. entity_spec e = Defined sp \<and> map_of sp ''owner'' = Some j
                            \<and> j \<noteq> JNull \<and> j \<noteq> JBool False \<and> j \<noteq> JNumber 0 \<and> j \<noteq> JString []))
    \<and> map_of (record_facts r) ''hasTags''
        = Some (FBoolean (\<exists>ts. metadata_tags m = Defined ts \<and> ts \<noteq> []))
    \<and> map_of (record_facts r) ''hasAnnotations''
        = Some (FBoolean (\<exists>a k. metadata_annotations m = Defined a \<and> k \<in> set (Object_keys a)))
    \<and> map_of (record_facts r) ''hasLabels''
        = Some (FBoolean (\<exists>l k. metadata_labels m = Defined l \<and> k \<in> set (Object_keys l))))
   \<and> (\<exists>r. dynamicEntityFactRetriever_mapEntity now e = Inr r
    \<and> map_of (record_facts r) ''hasTitle''
        = Some (FBoolean (\<exists>s. metadata_title m = Defined s \<and> s \<noteq> []))
    \<and> map_of (record_facts r) ''hasDescription''
        = Some (FBoolean (\<exists>s. metadata_description m = Defined s \<and> s \<noteq> []))
    \<and> map_of (record_facts r) ''hasOwner''
        = Some (FBoolean (\<exists>sp j. entity_spec e = Defined sp \<and> map_of sp ''owner'' = Some j
                            \<and> j \<noteq> JNull \<and> j \<noteq> JBool False \<and> j \<noteq> JNumber 0 \<and> j \<noteq> JString []))
    \<and> map_of (record_facts r) ''hasTags''
        = Some (FBoolean (\<exists>ts. metadata_tags m = Defined ts \<and> ts \<noteq> []))
    \<and> map_of (record_facts r) ''hasAnnotations''
        = Some (FBoolean (\<exists>a k. metadata_annotations m = Defined a \<and> k \<in> set (Object_keys a)))
    \<and> map_of (record_facts r) ''hasLabels''
        = Some (FBoolean (\<exists>l k. metadata_labels m = Defined l \<and> k \<in> set (Object_keys l))))"
  (is "(\<exists>r. _ = Inr r \<and> ?flags r) \<and> _")
proof -
  have flags: "?flags r"
    if ret: "createDynamicEntityFactRetriever_mapEntity now e = Inr r
             \<or> dynamicEntityFactRetriever_mapEntity now e = Inr r" for r
  proof -
    from ret obtain m' where m': "entity_metadata e = Defined m'"
      and title: "map_of (record_facts r) ''hasTitle'' = Some (FBoolean (Boolean (metadata_title m')))"
      and descr: "map_of (record_facts r) ''hasDescription'' =
             Some (FBoolean (Boolean (metadata_description m')))"
      and owner: "map_of (record_facts r) ''hasOwner'' =
             Some (FBoolean (Boolean_json (map_of (or_object (entity_spec e) []) ''owner'')))"
      and tags: "map_of (record_facts r) ''hasTags'' =
             Some (FBoolean (or_object (metadata_tags m') [] \<noteq> []))"
      and annos: "map_of (record_facts r) ''hasAnnotations'' =
             Some (FBoolean (or_object (metadata_annotations m') [] \<noteq> []))"
      and labels: "map_of (record_facts r) ''hasLabels'' =
             Some (FBoolean (or_object (metadata_labels m') [] \<noteq> []))"
      by (rule mapEntity_Inr_lookup)
    from m' assms have same: "m' = m" by simp
    have owner_iff: "Boolean_json (map_of (or_object (entity_spec e) []) ''owner'')
        = (\<exists>sp j. entity_spec e = Defined sp \<and> map_of sp ''owner'' = Some j
                 \<and> j \<noteq> JNull \<and> j \<noteq> JBool False \<and> j \<noteq> JNumber 0 \<and> j \<noteq> JString [])"
      by (cases "entity_spec e") (simp_all add: Boolean_json_iff)
    have keys_iff: "(or_object x [] \<noteq> []) = (\<exists>a k. x = Defined a \<and> k \<in> set (Object_keys a))"
      for x :: "string_map optional"
      by (cases x) (auto simp: Object_keys_def neq_Nil_conv)
    have 1: "map_of (record_facts r) ''hasTitle''
          = Some (FBoolean (\<exists>s. metadata_title m = Defined s \<and> s \<noteq> []))"
      using title unfolding same by (simp only: Boolean_iff)
    have 2: "map_of (record_facts r) ''hasDescription''
          = Some (FBoolean (\<exists>s. metadata_description m = Defined s \<and> s \<noteq> []))"
      using descr unfolding same by (simp only: Boolean_iff)
    have 3: "map_of (record_facts r) ''hasOwner''
          = Some (FBoolean (\<exists>sp j. entity_spec e = Defined sp \<and> map_of sp ''owner'' = Some j
                            \<and> j \<noteq> JNull \<and> j \<noteq> JBool False \<and> j \<noteq> JNumber 0 \<and> j \<noteq> JString []))"
      using owner by (simp only: owner_iff)
    have 4: "map_of (record_facts r) ''hasTags''
          = Some (FBoolean (\<exists>ts. metadata_tags m = Defined ts \<and> ts \<noteq> []))"
      using tags unfolding same by (simp only: or_object_nonempty_iff)
    have 5: "map_of (record_facts r) ''hasAnnotations''
          = Some (FBoolean (\<exists>a k. metadata_annotations m = Defined a \<and> k \<in> set (Object_keys a)))"
      using annos unfolding same by (simp only: keys_iff)
    have 6: "map_of (record_facts r) ''hasLabels''
          = Some (FBoolean (\<exists>l k. metadata_labels m = Defined l \<and> k \<in> set (Object_keys l)))"
      using labels unfolding same by (simp only: keys_iff)
    from 1 2 3 4 5 6 show ?thesis by (intro conjI)
  qed
  note factory = factory_mapEntity_Defined [OF assms, of now]
  note static = static_mapEntity_Defined [OF assms, of now]
  have "\<exists>r. createDynamicEntityFactRetriever_mapEntity now e = Inr r \<and> ?flags r"
    by (rule exI, rule conjI, rule factory, rule flags [OF disjI1 [OF factory]])
  moreover have "\<exists>r. dynamicEntityFactRetriever_mapEntity now e = Inr r \<and> ?flags r"
    by (rule exI, rule conjI, rule static, rule flags [OF disjI2 [OF static]])
  ultimately show ?thesis ..
qed

text \<open>The amended C6 at an entity with empty title, description, owner, tags and labels and
  one annotation: both callbacks return a record, with \<open>hasAnnotations\<close> alone true.\<close>

theorem C6_boolean_flags_amended_witness:
  "entity_metadata entity_empty_strings
     = Defined (sample_metadata \<lparr> metadata_title := Defined [], metadata_description := Defined [],
                                 metadata_tags := Defined [],
                                 metadata_annotations := Defined [(''team'', ''a'')],
                                 metadata_labels := Defined [] \<rparr>)
   \<and> (\<exists>r. createDynamicEntityFactRetriever_mapEntity 1000 entity_empty_strings = Inr r
        \<and> map_of (record_facts r) ''hasTitle'' = Some (FBoolean False)
        \<and> map_of (record_facts r) ''hasDescription'' = Some (FBoolean False)
        \<and> map_of (record_facts r) ''hasOwner'' = Some (FBoolean False)
        \<and> map_of (record_facts r) ''hasTags'' = Some (FBoolean False)
        \<and> map_of (record_facts r) ''hasAnnotations'' = Some (FBoolean True)
        \<and> map_of (record_facts r) ''hasLabels'' = Some (FBoolean False))
   \<and> (\<exists>r. dynamicEntityFactRetriever_mapEntity 1000 entity_empty_strings = Inr r
        \<and> map_of (record_facts r) ''hasTitle'' = Some (FBoolean False)
        \<and> map_of (record_facts r) ''hasDescription'' = Some (FBoolean False)
        \<and> map_of (record_facts r) ''hasOwner'' = Some (FBoolean False)
        \<and> map_of (record_facts r) ''hasTags'' = Some (FBoolean False)
        \<and> map_of (record_facts r) ''hasAnnotations'' = Some (FBoolean True)
        \<and> map_of (record_facts r) ''hasLabels'' = Some (FBoolean False))"
proof -
  let ?m = "sample_metadata \<lparr> metadata_title := Defined [], metadata_description := Defined [],
                                 metadata_tags := Defined [],
                                 metadata_annotations := Defined [(''team'', ''a'')],
                                 metadata_labels := Defined [] \<rparr>"
  have m: "entity_metadata entity_empty_strings = Defined ?m"
    and sp: "entity_spec entity_empty_strings = Defined [(''owner'', JString []), (''lifecycle'', JNull)]"
    by (simp_all add: entity_empty_strings_def)
  from C6_boolean_flags_amended [OF m, of 1000] m show ?thesis
    by (simp add: sp sample_metadata_def Object_keys_def)
qed

text \<open>
  Claim C7: in a returned record \<open>dependencyCount + dependentCount \<le> relationCount\<close>.
\<close>

theorem C7_directed_counts_bounded:
  assumes "createDynamicEntityFactRetriever_mapEntity now e = Inr r
           \<or> dynamicEntityFactRetriever_mapEntity now e = Inr r"
  shows "\<exists>d p n. map_of (record_facts r) ''dependencyCount'' = Some (FNumber d)
            \<and> map_of (record_facts r) ''dependentCount'' = Some (FNumber p)
            \<and> map_of (record_facts r) ''relationCount'' = Some (FNumber n)
            \<and> d + p \<le> n"
proof -
  let ?rs = "or_object (entity_relations e) []"
  have "length (filter (\<lambda>x. relation_type x = ''dependsOn'') ?rs)
        + length (filter (\<lambda>x. relation_type x = ''dependencyOf'') ?rs) \<le> length ?rs"
    using length_three_way [of "''dependsOn''" "''dependencyOf''" relation_type ?rs] by simp
  moreover from assms obtain m where
    "map_of (record_facts r) ''relationCount'' = Some (FNumber (length ?rs))"
    "map_of (record_facts r) ''dependencyCount'' =
       Some (FNumber (length (filter (\<lambda>x. relation_type x = ''dependsOn'') ?rs)))"
    "map_of (record_facts r) ''dependentCount'' =
       Some (FNumber (length (filter (\<lambda>x. relation_type x = ''dependencyOf'') ?rs)))"
    by (rule mapEntity_Inr_lookup)
  ultimately show ?thesis
    by blast
qed

text \<open>C7 at the sample entity.\<close>

theorem C7_directed_counts_bounded_witness:
  "dynamicEntityFactRetriever_mapEntity 7 sample_entity =
     Inr \<lparr> record_entity = \<lparr> ref_namespace = Defined ''default'', ref_kind = ''Component'',
                              ref_name = Defined ''svc'' \<rparr>,
           record_facts = dynamicEntityFactRetriever_facts sample_entity,
           record_timestamp = 7 \<rparr>
   \<and> (\<exists>d p n. map_of (dynamicEntityFactRetriever_facts sample_entity) ''dependencyCount''
                 = Some (FNumber d)
             \<and> map_of (dynamicEntityFactRetriever_facts sample_entity) ''dependentCount''
                 = Some (FNumber p)
             \<and> map_of (dynamicEntityFactRetriever_facts sample_entity) ''relationCount''
                 = Some (FNumber n)
             \<and> d + p \<le> n)"
proof -
  let ?r = "\<lparr> record_entity = \<lparr> ref_namespace = Defined ''default'', ref_kind = ''Component'',
                              ref_name = Defined ''svc'' \<rparr>,
           record_facts = dynamicEntityFactRetriever_facts sample_entity,
           record_timestamp = 7 \<rparr>"
  have h: "dynamicEntityFactRetriever_mapEntity 7 sample_entity = Inr ?r"
    by (simp add: dynamicEntityFactRetriever_mapEntity_def sample_entity_def sample_metadata_def)
  from C7_directed_counts_bounded [OF disjI2 [OF h]] h show ?thesis
    by simp
qed

text \<open>
  Claim C8: two applications of the transform to the same entity, at whatever times, give
  the same facts (and fail alike when they fail); only the timestamp can differ.
\<close>

theorem C8_facts_independent_of_time:
  "facts_of (createDynamicEntityFactRetriever_mapEntity t1 e)
     = facts_of (createDynamicEntityFactRetriever_mapEntity t2 e)
   \<and> facts_of (dynamicEntityFactRetriever_mapEntity t1 e)
     = facts_of (dynamicEntityFactRetriever_mapEntity t2 e)"
  by (cases "entity_metadata e")
    (simp_all add: facts_of_def createDynamicEntityFactRetriever_mapEntity_def
      dynamicEntityFactRetriever_mapEntity_def)

text \<open>
  Claim C9: once credentials, token and entities have been fetched, what the handler
  returns has the length of the fetched list and its \<open>i\<close>-th record is the transform of
  the \<open>i\<close>-th entity, at the \<open>i\<close>-th reading of the clock; and the handler does return
  when every fetched entity has its metadata object.
\<close>

theorem C9_handler_maps_in_order:
  assumes "auth_getOwnServiceCredentials ctx = Inr creds"
    and "auth_getPluginRequestToken ctx creds ''catalog'' = Inr tok"
  shows
  "(catalog_getEntities ctx (or_optional cfg (ctx_entityFilter ctx)) tok = Inr items \<longrightarrow>
      (\<forall>rs. snd (createDynamicEntityFactRetriever_handler cfg ident ctx) = Inr rs \<longrightarrow>
         length rs = length items
         \<and> (\<forall>i < length items.
               createDynamicEntityFactRetriever_mapEntity (ctx_clock ctx i) (items ! i)
                 = Inr (rs ! i)))
      \<and> ((\<forall>e \<in> set items. truthy_object (entity_metadata e)) \<longrightarrow>
           (\<exists>rs. snd (createDynamicEntityFactRetriever_handler cfg ident ctx) = Inr rs)))
   \<and> (catalog_getEntities ctx (ctx_entityFilter ctx) tok = Inr items \<longrightarrow>
      (\<forall>rs. snd (dynamicEntityFactRetriever_handler ctx) = Inr rs \<longrightarrow>
         length rs = length items
         \<and> (\<forall>i < length items.
               dynamicEntityFactRetriever_mapEntity (ctx_clock ctx i) (items ! i)
                 = Inr (rs ! i)))
      \<and> ((\<forall>e \<in> set items. truthy_object (entity_metadata e)) \<longrightarrow>
           (\<exists>rs. snd (dynamicEntityFactRetriever_handler ctx) = Inr rs)))"
proof -
  have factory_mapped: "length rs = length items
      \<and> (\<forall>i < length items.
            createDynamicEntityFactRetriever_mapEntity (ctx_clock ctx i) (items ! i) = Inr (rs ! i))"
    if fetch: "catalog_getEntities ctx (or_optional cfg (ctx_entityFilter ctx)) tok = Inr items"
      and res: "snd (createDynamicEntityFactRetriever_handler cfg ident ctx) = Inr rs" for rs
  proof -
    from res have
      "items_map createDynamicEntityFactRetriever_mapEntity (ctx_clock ctx) 0 items = Inr rs"
      by (simp add: factory_handler_fetched [OF assms fetch])
    from items_map_Inr [OF this] show ?thesis by simp
  qed
  have factory_returns: "\<exists>rs. snd (createDynamicEntityFactRetriever_handler cfg ident ctx) = Inr rs"
    if fetch: "catalog_getEntities ctx (or_optional cfg (ctx_entityFilter ctx)) tok = Inr items"
      and ok: "\<forall>e \<in> set items. truthy_object (entity_metadata e)"
  proof -
    have "\<exists>rs. items_map createDynamicEntityFactRetriever_mapEntity (ctx_clock ctx) 0 items = Inr rs"
      using ok by (intro items_map_mapped) (simp add: factory_mapEntity_isl)
    then show ?thesis
      by (simp add: factory_handler_fetched [OF assms fetch])
  qed
  have static_mapped: "length rs = length items
      \<and> (\<forall>i < length items.
            dynamicEntityFactRetriever_mapEntity (ctx_clock ctx i) (items ! i) = Inr (rs ! i))"
    if fetch: "catalog_getEntities ctx (ctx_entityFilter ctx) tok = Inr items"
      and res: "snd (dynamicEntityFactRetriever_handler ctx) = Inr rs" for rs
  proof -
    from res have
      "items_map dynamicEntityFactRetriever_mapEntity (ctx_clock ctx) 0 items = Inr rs"
      by (simp add: static_handler_fetched [OF assms fetch])
    from items_map_Inr [OF this] show ?thesis by simp
  qed
  have static_returns: "\<exists>rs. snd (dynamicEntityFactRetriever_handler ctx) = Inr rs"
    if fetch: "catalog_getEntities ctx (ctx_entityFilter ctx) tok = Inr items"
      and ok: "\<forall>e \<in> set items. truthy_object (entity_metadata e)"
  proof -
    have "\<exists>rs. items_map dynamicEntityFactRetriever_mapEntity (ctx_clock ctx) 0 items = Inr rs"
      using ok by (intro items_map_mapped) (simp add: static_mapEntity_isl)
    then show ?thesis
      by (simp add: static_handler_fetched [OF assms fetch])
  qed
  show ?thesis
  proof (intro conjI impI)
    assume fetch: "catalog_getEntities ctx (or_optional cfg (ctx_entityFilter ctx)) tok = Inr items"
    show "\<forall>rs. snd (createDynamicEntityFactRetriever_handler cfg ident ctx) = Inr rs \<longrightarrow>
         length rs = length items
         \<and> (\<forall>i < length items.
               createDynamicEntityFactRetriever_mapEntity (ctx_clock ctx i) (items ! i)
                 = Inr (rs ! i))"
      using factory_mapped [OF fetch] by blast
  next
    assume "catalog_getEntities ctx (or_optional cfg (ctx_entityFilter ctx)) tok = Inr items"
      and "\<forall>e \<in> set items. truthy_object (entity_metadata e)"
    then show "\<exists>rs. snd (createDynamicEntityFactRetriever_handler cfg ident ctx) = Inr rs"
      by (rule factory_returns)
  next
    assume fetch: "catalog_getEntities ctx (ctx_entityFilter ctx) tok = Inr items"
    show "\<forall>rs. snd (dynamicEntityFactRetriever_handler ctx) = Inr rs \<longrightarrow>
         length rs = length items
         \<and> (\<forall>i < length items.
               dynamicEntityFactRetriever_mapEntity (ctx_clock ctx i) (items ! i)
                 = Inr (rs ! i))"
      using static_mapped [OF fetch] by blast
  next
    assume "catalog_getEntities ctx (ctx_entityFilter ctx) tok = Inr items"
      and "\<forall>e \<in> set items. truthy_object (entity_metadata e)"
    then show "\<exists>rs. snd (dynamicEntityFactRetriever_handler ctx) = Inr rs"
      by (rule static_returns)
  qed
qed

text \<open>C9 at a batch of two entities.\<close>

theorem C9_handler_maps_in_order_witness:
  "auth_getOwnServiceCredentials (sample_context [sample_entity, entity_without_namespace])
     = Inr ''plugin:tech-insights''
   \<and> auth_getPluginRequestToken (sample_context [sample_entity, entity_without_namespace])
       ''plugin:tech-insights'' ''catalog'' = Inr ''plugin:tech-insights->catalog''
   \<and> catalog_getEntities (sample_context [sample_entity, entity_without_namespace])
       (or_optional Undefined
          (ctx_entityFilter (sample_context [sample_entity, entity_without_namespace])))
       ''plugin:tech-insights->catalog''
     = Inr [sample_entity, entity_without_namespace]
   \<and> truthy_object (entity_metadata sample_entity)
   \<and> truthy_object (entity_metadata entity_without_namespace)
   \<and> snd (createDynamicEntityFactRetriever_handler Undefined ''dynamicEntityFactRetriever''
             (sample_context [sample_entity, entity_without_namespace]))
     = Inr [ \<lparr> record_entity = \<lparr> ref_namespace = Defined ''default'', ref_kind = ''Component'',
                                  ref_name = Defined ''svc'' \<rparr>,
               record_facts = createDynamicEntityFactRetriever_facts sample_entity,
               record_timestamp = 1000 \<rparr>,
             \<lparr> record_entity = \<lparr> ref_namespace = Undefined, ref_kind = ''Component'',
                                  ref_name = Defined ''svc'' \<rparr>,
               record_facts = createDynamicEntityFactRetriever_facts entity_without_namespace,
               record_timestamp = 1001 \<rparr> ]
   \<and> length (projr (snd (createDynamicEntityFactRetriever_handler Undefined
                           ''dynamicEntityFactRetriever''
                           (sample_context [sample_entity, entity_without_namespace])))) = 2
   \<and> (\<exists>rs. snd (dynamicEntityFactRetriever_handler
                   (sample_context [sample_entity, entity_without_namespace])) = Inr rs)"
proof -
  let ?items = "[sample_entity, entity_without_namespace]"
  let ?ctx = "sample_context ?items"
  let ?rs = "[ \<lparr> record_entity = \<lparr> ref_namespace = Defined ''default'', ref_kind = ''Component'',
                                  ref_name = Defined ''svc'' \<rparr>,
               record_facts = createDynamicEntityFactRetriever_facts sample_entity,
               record_timestamp = 1000 \<rparr>,
             \<lparr> record_entity = \<lparr> ref_namespace = Undefined, ref_kind = ''Component'',
                                  ref_name = Defined ''svc'' \<rparr>,
               record_facts = createDynamicEntityFactRetriever_facts entity_without_namespace,
               record_timestamp = 1001 \<rparr> ]"
  have a: "auth_getOwnServiceCredentials ?ctx = Inr ''plugin:tech-insights''"
    and t: "auth_getPluginRequestToken ?ctx ''plugin:tech-insights'' ''catalog''
              = Inr ''plugin:tech-insights->catalog''"
    and f1: "catalog_getEntities ?ctx (or_optional Undefined (ctx_entityFilter ?ctx))
               ''plugin:tech-insights->catalog'' = Inr ?items"
    and f2: "catalog_getEntities ?ctx (ctx_entityFilter ?ctx)
               ''plugin:tech-insights->catalog'' = Inr ?items"
    by (simp_all add: sample_context_def)
  have m: "truthy_object (entity_metadata sample_entity)"
      "truthy_object (entity_metadata entity_without_namespace)"
    by (simp_all add: sample_entity_def entity_without_namespace_def)
  have res: "snd (createDynamicEntityFactRetriever_handler Undefined ''dynamicEntityFactRetriever''
                   ?ctx) = Inr ?rs"
    by (simp add: createDynamicEntityFactRetriever_handler_def Let_def sample_context_def
        or_optional_def createDynamicEntityFactRetriever_mapEntity_def sample_entity_def
        entity_without_namespace_def sample_metadata_def)
  note inst = C9_handler_maps_in_order [OF a t, where cfg = Undefined and items = ?items
      and ident = "''dynamicEntityFactRetriever''"]
  from inst f1 f2 m res have
    "length ?rs = length ?items"
    "\<exists>rs. snd (dynamicEntityFactRetriever_handler ?ctx) = Inr rs"
    by auto
  with a t f1 m res show ?thesis
    by simp
qed

text \<open>
  Claim C10: in a returned record \<open>title\<close> is null exactly when \<open>hasTitle\<close> is false, and
  likewise \<open>description\<close> with \<open>hasDescription\<close> and \<open>owner\<close> with \<open>hasOwner\<close>; an empty
  title, description or owner of the entity becomes null.
\<close>

theorem C10_shortcut_agrees_with_flag:
  assumes "createDynamicEntityFactRetriever_mapEntity now e = Inr r
           \<or> dynamicEntityFactRetriever_mapEntity now e = Inr r"
  shows "\<exists>t d ow ht hd ho.
      map_of (record_facts r) ''title'' = Some (FString t)
    \<and> map_of (record_facts r) ''hasTitle'' = Some (FBoolean ht)
    \<and> (t = Null) = (\<not> ht)
    \<and> map_of (record_facts r) ''description'' = Some (FString d)
    \<and> map_of (record_facts r) ''hasDescription'' = Some (FBoolean hd)
    \<and> (d = Null) = (\<not> hd)
    \<and> map_of (record_facts r) ''owner'' = Some (FJson ow)
    \<and> map_of (record_facts r) ''hasOwner'' = Some (FBoolean ho)
    \<and> (ow = JNull) = (\<not> ho)
    \<and> (case entity_metadata e of
         Defined m \<Rightarrow> (if metadata_title m = Defined [] then t = Null else True)
                      \<and> (if metadata_description m = Defined [] then d = Null else True)
       | Null \<Rightarrow> True | Undefined \<Rightarrow> True)
    \<and> (case entity_spec e of
         Defined sp \<Rightarrow> (if map_of sp ''owner'' = Some (JString []) then ow = JNull else True)
       | Null \<Rightarrow> True | Undefined \<Rightarrow> True)"
proof -
  let ?owner = "map_of (or_object (entity_spec e) []) ''owner''"
  from assms obtain m where m: "entity_metadata e = Defined m"
    and t: "map_of (record_facts r) ''title'' = Some (FString (or_string (metadata_title m) Null))"
    and d: "map_of (record_facts r) ''description'' =
           Some (FString (or_string (metadata_description m) Null))"
    and ow: "map_of (record_facts r) ''owner'' = Some (FJson (or_null ?owner))"
    and ht: "map_of (record_facts r) ''hasTitle'' = Some (FBoolean (Boolean (metadata_title m)))"
    and hd: "map_of (record_facts r) ''hasDescription'' =
           Some (FBoolean (Boolean (metadata_description m)))"
    and ho: "map_of (record_facts r) ''hasOwner'' = Some (FBoolean (Boolean_json ?owner))"
    by (rule mapEntity_Inr_lookup)
  have meta: "(case entity_metadata e of
         Defined m' \<Rightarrow>
           (if metadata_title m' = Defined [] then or_string (metadata_title m) Null = Null else True)
           \<and> (if metadata_description m' = Defined []
              then or_string (metadata_description m) Null = Null else True)
       | Null \<Rightarrow> True | Undefined \<Rightarrow> True)"
    by (simp add: m or_string_def)
  have spec: "(case entity_spec e of
         Defined sp \<Rightarrow>
           (if map_of sp ''owner'' = Some (JString []) then or_null ?owner = JNull else True)
       | Null \<Rightarrow> True | Undefined \<Rightarrow> True)"
    by (cases "entity_spec e") (simp_all add: or_null_def)
  show ?thesis
    apply (rule exI [of _ "or_string (metadata_title m) Null"])
    apply (rule exI [of _ "or_string (metadata_description m) Null"])
    apply (rule exI [of _ "or_null ?owner"])
    apply (rule exI [of _ "Boolean (metadata_title m)"])
    apply (rule exI [of _ "Boolean (metadata_description m)"])
    apply (rule exI [of _ "Boolean_json ?owner"])
    apply (intro conjI t d ow ht hd ho or_string_Null_iff or_null_JNull_iff meta spec)
    done
qed

text \<open>C10 at the entity with empty strings and at the sample entity.\<close>

theorem C10_shortcut_agrees_with_flag_witness:
  "dynamicEntityFactRetriever_mapEntity 1000 entity_empty_strings =
     Inr \<lparr> record_entity = \<lparr> ref_namespace = Defined ''default'', ref_kind = ''API'',
                              ref_name = Defined ''svc'' \<rparr>,
           record_facts = dynamicEntityFactRetriever_facts entity_empty_strings,
           record_timestamp = 1000 \<rparr>
   \<and> map_of (dynamicEntityFactRetriever_facts entity_empty_strings) ''title''
       = Some (FString Null)
   \<and> map_of (dynamicEntityFactRetriever_facts entity_empty_strings) ''hasTitle''
       = Some (FBoolean False)
   \<and> map_of (dynamicEntityFactRetriever_facts entity_empty_strings) ''owner''
       = Some (FJson JNull)
   \<and> map_of (dynamicEntityFactRetriever_facts sample_entity) ''owner''
       = Some (FJson (JString ''team-a''))
   \<and> map_of (dynamicEntityFactRetriever_facts sample_entity) ''hasOwner''
       = Some (FBoolean True)"
proof -
  let ?r = "\<lambda>e k. \<lparr> record_entity = \<lparr> ref_namespace = Defined ''default'', ref_kind = k,
                              ref_name = Defined ''svc'' \<rparr>,
           record_facts = dynamicEntityFactRetriever_facts e,
           record_timestamp = 1000 \<rparr>"
  have h1: "dynamicEntityFactRetriever_mapEntity 1000 entity_empty_strings
              = Inr (?r entity_empty_strings ''API'')"
    and h2: "dynamicEntityFactRetriever_mapEntity 1000 sample_entity
              = Inr (?r sample_entity ''Component'')"
    by (simp_all add: dynamicEntityFactRetriever_mapEntity_def entity_empty_strings_def
        sample_entity_def sample_metadata_def)
  from C10_shortcut_agrees_with_flag [OF disjI2 [OF h1]]
    C10_shortcut_agrees_with_flag [OF disjI2 [OF h2]] h1
  show ?thesis
    by (simp add: static_facts_lookup entity_empty_strings_def sample_entity_def
        sample_metadata_def or_string_def or_null_def)
qed

end
